theory Spec2Isabelle
  imports Complex_Main
begin

section \<open>Python string operations used by the routing engine\<close>

text \<open>
  Strings are modelled as lists of 8-bit characters holding ASCII text. The operations
  below follow Python's \<^verbatim>\<open>str\<close> methods on ASCII input: \<^verbatim>\<open>upper\<close> and
  \<^verbatim>\<open>lower\<close> change the 26 letters only, \<^verbatim>\<open>strip\<close> removes the ASCII characters
  for which \<^verbatim>\<open>str.isspace\<close> holds (codes 9 to 13 and 28 to 32), and the regular
  expression class \<^verbatim>\<open>\d\<close> is the ten ASCII digits.
\<close>

definition lower_letters :: string where
  "lower_letters = ''abcdefghijklmnopqrstuvwxyz''"

definition upper_letters :: string where
  "upper_letters = ''ABCDEFGHIJKLMNOPQRSTUVWXYZ''"

definition py_upper :: "string \<Rightarrow> string" where
  "py_upper s = map (\<lambda>c. case map_of (zip lower_letters upper_letters) c of
                           Some u \<Rightarrow> u | None \<Rightarrow> c) s"

definition py_lower :: "string \<Rightarrow> string" where
  "py_lower s = map (\<lambda>c. case map_of (zip upper_letters lower_letters) c of
                           Some l \<Rightarrow> l | None \<Rightarrow> c) s"

definition is_space :: "char \<Rightarrow> bool" where
  "is_space c = (c \<in> set [CHR 0x09, CHR 0x0A, CHR 0x0B, CHR 0x0C, CHR 0x0D,
                           CHR 0x1C, CHR 0x1D, CHR 0x1E, CHR 0x1F, CHR '' ''])"

definition py_strip :: "string \<Rightarrow> string" where
  "py_strip s = rev (dropWhile is_space (rev (dropWhile is_space s)))"

definition is_digit :: "char \<Rightarrow> bool" where
  "is_digit c = (c \<in> set ''0123456789'')"

definition is_upper_alpha :: "char \<Rightarrow> bool" where
  "is_upper_alpha c = (c \<in> set upper_letters)"

definition py_startswith :: "string \<Rightarrow> string \<Rightarrow> bool" where
  "py_startswith s p = (take (length p) s = p)"

definition py_endswith :: "string \<Rightarrow> string \<Rightarrow> bool" where
  "py_endswith s p = (length p \<le> length s \<and> drop (length s - length p) s = p)"

text \<open>\<^verbatim>\<open>k in s\<close> for strings: \<open>k\<close> occurs in \<open>s\<close> as a contiguous substring.\<close>

fun py_contains :: "string \<Rightarrow> string \<Rightarrow> bool" where
  "py_contains k [] = (k = [])"
| "py_contains k (c # cs) = (py_startswith (c # cs) k \<or> py_contains k cs)"

text \<open>\<^verbatim>\<open>s.split(d)\<close> for a one-character separator: never the empty list.\<close>

fun py_split :: "char \<Rightarrow> string \<Rightarrow> string list" where
  "py_split d [] = [] # []"
| "py_split d (c # cs) =
     (if c = d then [] # py_split d cs
      else (case py_split d cs of
              [] \<Rightarrow> [c] # []
            | p # ps \<Rightarrow> (c # p) # ps))"

text \<open>\<^verbatim>\<open>sep.join(xs)\<close>.\<close>

fun py_join :: "string \<Rightarrow> string list \<Rightarrow> string" where
  "py_join sep [] = []"
| "py_join sep [x] = x"
| "py_join sep (x # y # ys) = x @ sep @ py_join sep (y # ys)"

text \<open>
  \<^verbatim>\<open>s.zfill(w)\<close>: pad with zeros on the left up to width \<open>w\<close>; a leading sign stays
  in front of the padding.
\<close>

definition py_zfill :: "nat \<Rightarrow> string \<Rightarrow> string" where
  "py_zfill w s =
     (if w \<le> length s then s
      else (case s of
              [] \<Rightarrow> replicate w (CHR ''0'')
            | c # cs \<Rightarrow>
                if c = CHR ''+'' \<or> c = CHR ''-''
                then c # replicate (w - length s) (CHR ''0'') @ cs
                else replicate (w - length s) (CHR ''0'') @ s))"

text \<open>
  \<^verbatim>\<open>s.replace(old, new)\<close> for a non-empty \<open>old\<close>: occurrences are replaced from the
  left and do not overlap. The counter is the number of characters of a matched occurrence
  still to be skipped.
\<close>

fun replace_from :: "string \<Rightarrow> string \<Rightarrow> nat \<Rightarrow> string \<Rightarrow> string" where
  "replace_from old new k [] = []"
| "replace_from old new (Suc k) (c # cs) = replace_from old new k cs"
| "replace_from old new 0 (c # cs) =
     (if py_startswith (c # cs) old then new @ replace_from old new (length old - 1) cs
      else c # replace_from old new 0 cs)"

definition py_replace :: "string \<Rightarrow> string \<Rightarrow> string \<Rightarrow> string" where
  "py_replace old new s = replace_from old new 0 s"

section \<open>Market Identifier (market\_utils.py)\<close>

text \<open>
  The patterns of \<^verbatim>\<open>A_STOCK_PATTERNS\<close>, \<^verbatim>\<open>HK_STOCK_PATTERNS\<close> and
  \<^verbatim>\<open>US_STOCK_PATTERNS\<close>, each anchored at both ends, written as predicates on the
  upper-cased, stripped symbol (which has no trailing newline, so \<^verbatim>\<open>$\<close> is the end).
\<close>

definition all_digits :: "string \<Rightarrow> bool" where
  "all_digits s = list_all is_digit s"

definition all_upper_alpha :: "string \<Rightarrow> bool" where
  "all_upper_alpha s = list_all is_upper_alpha s"

definition matches_a_stock :: "string \<Rightarrow> bool" where
  "matches_a_stock s =
     (length s = 6 \<and> all_digits s \<and>
      (take 3 s \<in> set [''000'', ''002'', ''003'']
       \<or> take 2 s = ''30''
       \<or> take 2 s = ''60''
       \<or> take 2 s = ''68''
       \<or> take 1 s = ''8''
       \<or> take 1 s = ''4''))"

definition matches_hk_stock :: "string \<Rightarrow> bool" where
  "matches_hk_stock s =
     ((py_endswith s ''.HK'' \<and>
         (let d = take (length s - 3) s in (length d = 4 \<or> length d = 5) \<and> all_digits d))
      \<or> ((length s = 4 \<or> length s = 5) \<and> all_digits s))"

text \<open>
  \<^verbatim>\<open>^[A-Z]+\.[A-Z]+$\<close> and \<^verbatim>\<open>^\d+\.[A-Z]+$\<close>: neither character class contains the
  dot, so the string has exactly one dot, with a non-empty part on each side.
\<close>

definition matches_us_stock :: "string \<Rightarrow> bool" where
  "matches_us_stock s =
     ((1 \<le> length s \<and> length s \<le> 5 \<and> all_upper_alpha s)
      \<or> (case py_split (CHR ''.'') s of
            [a, b] \<Rightarrow> a \<noteq> [] \<and> b \<noteq> [] \<and> all_upper_alpha a \<and> all_upper_alpha b
          | _ \<Rightarrow> False)
      \<or> (case py_split (CHR ''.'') s of
            [a, b] \<Rightarrow> a \<noteq> [] \<and> b \<noteq> [] \<and> all_digits a \<and> all_upper_alpha b
          | _ \<Rightarrow> False))"

definition identify_market :: "string \<Rightarrow> string" where
  "identify_market symbol0 =
     (let symbol = py_strip (py_upper symbol0)
      in if matches_a_stock symbol then ''A_STOCK''
         else if matches_hk_stock symbol then ''HK_STOCK''
         else if matches_us_stock symbol then ''US_STOCK''
         else ''UNKNOWN'')"

text \<open>
  \<^verbatim>\<open>format_symbol_for_vendor(symbol, vendor, market=None)\<close>. The symbol is upper-cased
  and stripped before the vendor is looked at, and every path that matches no rule ends
  at the final \<^verbatim>\<open>return symbol\<close> of that normalised value. There is no \<^verbatim>\<open>raise\<close>
  and no operation that can fail on a string, so the model is a total function.
\<close>

definition format_symbol_for_vendor :: "string \<Rightarrow> string \<Rightarrow> string option \<Rightarrow> string" where
  "format_symbol_for_vendor symbol0 vendor market0 =
     (let market = (case market0 of None \<Rightarrow> identify_market symbol0 | Some m \<Rightarrow> m);
          symbol = py_strip (py_upper symbol0)
      in if vendor = ''akshare'' then
           (if market = ''A_STOCK'' then
              (if py_startswith symbol ''sz'' \<or> py_startswith symbol ''sh''
               then drop 2 symbol else symbol)
            else if market = ''HK_STOCK'' then py_zfill 5 (py_replace ''.HK'' '''' symbol)
            else if market = ''US_STOCK'' then symbol
            else symbol)
         else if vendor = ''baostock'' then
           (if market = ''A_STOCK'' then
              (if py_startswith symbol ''000'' \<or> py_startswith symbol ''002''
                  \<or> py_startswith symbol ''003'' \<or> py_startswith symbol ''30''
               then ''sz.'' @ symbol
               else if py_startswith symbol ''60'' \<or> py_startswith symbol ''68''
               then ''sh.'' @ symbol
               else symbol)
            else symbol)
         else if vendor \<in> set [''yfinance'', ''alpha_vantage''] then
           (if market = ''A_STOCK'' then
              (if py_startswith symbol ''000'' \<or> py_startswith symbol ''002''
                  \<or> py_startswith symbol ''003'' \<or> py_startswith symbol ''30''
               then symbol @ ''.SZ''
               else if py_startswith symbol ''60'' \<or> py_startswith symbol ''68''
               then symbol @ ''.SS''
               else symbol)
            else if market = ''HK_STOCK'' then
              (if \<not> py_endswith symbol ''.HK'' then py_zfill 4 symbol @ ''.HK'' else symbol)
            else if market = ''US_STOCK'' then symbol
            else symbol)
         else symbol)"

text \<open>
  The vendor and market combinations for which the function has a formatting rule: the
  branches of the source that return something other than the final \<^verbatim>\<open>return symbol\<close>.
\<close>

definition has_format_rule :: "string \<Rightarrow> string \<Rightarrow> bool" where
  "has_format_rule vendor market =
     ((vendor = ''akshare'' \<and> market \<in> set [''A_STOCK'', ''HK_STOCK'', ''US_STOCK''])
      \<or> (vendor = ''baostock'' \<and> market = ''A_STOCK'')
      \<or> (vendor \<in> set [''yfinance'', ''alpha_vantage'']
          \<and> market \<in> set [''A_STOCK'', ''HK_STOCK'', ''US_STOCK'']))"

definition get_supported_markets :: "string \<Rightarrow> string list" where
  "get_supported_markets vendor =
     (case map_of [(''akshare'', [''A_STOCK'', ''HK_STOCK'', ''US_STOCK'']),
                   (''baostock'', [''A_STOCK'']),
                   (''yfinance'', [''A_STOCK'', ''HK_STOCK'', ''US_STOCK'']),
                   (''alpha_vantage'', [''US_STOCK''])] vendor of
        Some ms \<Rightarrow> ms
      | None \<Rightarrow> [])"

definition is_market_supported :: "string \<Rightarrow> string \<Rightarrow> bool" where
  "is_market_supported symbol vendor =
     (identify_market symbol \<in> set (get_supported_markets vendor))"

section \<open>The indicator data-quality gate (interface.py)\<close>

text \<open>
  \<^verbatim>\<open>datetime.strptime(s, '%Y-%m-%d')\<close> at the only length the gate passes to it, ten
  characters. The format compiles to the pattern
  \<^verbatim>\<open>(\d\d\d\d)-(1[0-2]|0[1-9]|[1-9])-(3[0-1]|[1-2]\d|0[1-9]|[1-9]| [1-9])\<close>, which must
  consume the whole string; with ten characters the month and the day have two characters
  each. The parsed fields must then form a date of the proleptic Gregorian calendar with
  a year of at least 1. The result is whether the call returns (True) or raises
  \<^verbatim>\<open>ValueError\<close> (False).
\<close>

definition digit_val :: "char \<Rightarrow> nat" where
  "digit_val c = of_char c - 48"

definition is_leap_year :: "nat \<Rightarrow> bool" where
  "is_leap_year y = (y mod 4 = 0 \<and> (y mod 100 \<noteq> 0 \<or> y mod 400 = 0))"

definition days_in_month :: "nat \<Rightarrow> nat \<Rightarrow> nat" where
  "days_in_month y m =
     (if m = 2 then (if is_leap_year y then 29 else 28)
      else if m \<in> set [4, 6, 9, 11] then 30
      else 31)"

definition strptime_ymd_ok :: "string \<Rightarrow> bool" where
  "strptime_ymd_ok s =
     (case s of
        [y1, y2, y3, y4, h1, m1, m2, h2, d1, d2] \<Rightarrow>
          is_digit y1 \<and> is_digit y2 \<and> is_digit y3 \<and> is_digit y4
          \<and> h1 = CHR ''-'' \<and> h2 = CHR ''-''
          \<and> ((m1 = CHR ''1'' \<and> m2 \<in> set ''012'') \<or> (m1 = CHR ''0'' \<and> m2 \<in> set ''123456789''))
          \<and> ((d1 = CHR ''3'' \<and> d2 \<in> set ''01'')
               \<or> (d1 \<in> set ''12'' \<and> is_digit d2)
               \<or> (d1 = CHR ''0'' \<and> d2 \<in> set ''123456789'')
               \<or> (d1 = CHR '' '' \<and> d2 \<in> set ''123456789''))
          \<and> (let year = 1000 * digit_val y1 + 100 * digit_val y2 + 10 * digit_val y3 + digit_val y4;
                   month = 10 * digit_val m1 + digit_val m2;
                   day = (if d1 = CHR '' '' then 0 else 10 * digit_val d1) + digit_val d2
               in 1 \<le> year \<and> day \<le> days_in_month year month)
      | _ \<Rightarrow> False)"

text \<open>
  The keywords that mark a value as "no data". The last three are the UTF-8 encodings of
  the three Chinese keywords of the source.
\<close>

definition invalid_keywords :: "string list" where
  "invalid_keywords =
     [''n/a'', ''not a trading day'', ''weekend'', ''holiday'', ''invalid'',
      ''no data'', ''error'', ''failed'',
      [CHR 0xE6, CHR 0x97, CHR 0xA0, CHR 0xE6, CHR 0x95, CHR 0xB0, CHR 0xE6, CHR 0x8D, CHR 0xAE],
      [CHR 0xE8, CHR 0x8A, CHR 0x82, CHR 0xE5, CHR 0x81, CHR 0x87, CHR 0xE6, CHR 0x97, CHR 0xA5],
      [CHR 0xE9, CHR 0x9D, CHR 0x9E, CHR 0xE4, CHR 0xBA, CHR 0xA4, CHR 0xE6, CHR 0x98, CHR 0x93,
       CHR 0xE6, CHR 0x97, CHR 0xA5]]"

text \<open>
  One iteration of the loop over the lines, on the counters
  \<open>(valid_data_count, date_line_count)\<close>. \<open>py_float\<close> tells whether Python's
  \<^verbatim>\<open>float(value_part)\<close> returns (True) or raises \<^verbatim>\<open>ValueError\<close> (False); it is a
  builtin of the language and is taken as a parameter.
\<close>

definition scan_line :: "(string \<Rightarrow> bool) \<Rightarrow> nat \<times> nat \<Rightarrow> string \<Rightarrow> nat \<times> nat" where
  "scan_line py_float counts line0 =
     (let valid_data_count = fst counts;
          date_line_count = snd counts;
          line = py_strip line0
      in case py_split (CHR '':'') line of
           [] \<Rightarrow> counts
         | first # others \<Rightarrow>
             if CHR '':'' \<in> set line \<and> length (py_strip first) = 10 then
               (let date_part = py_strip first
                in if strptime_ymd_ok date_part then
                     (let value_part = py_strip (py_join '':'' others)
                      in if \<not> list_ex (\<lambda>keyword. py_contains keyword (py_lower value_part))
                                 invalid_keywords
                         then (if py_float value_part
                               then (valid_data_count + 1, date_line_count + 1)
                               else if value_part \<noteq> []
                               then (valid_data_count + 1, date_line_count + 1)
                               else (valid_data_count, date_line_count + 1))
                         else (valid_data_count, date_line_count + 1))
                   else counts)
             else counts)"

text \<open>
  \<^verbatim>\<open>valid_ratio < 0.3\<close> with \<^verbatim>\<open>valid_ratio = valid_data_count / date_line_count\<close>,
  over the real numbers. The source divides two integers into an IEEE double and
  compares with the double nearest to 0.3; the quotient is correctly rounded and
  rounding is monotone, so for fewer than \<open>10\<^sup>1\<^sup>5\<close> date lines the comparison of
  the doubles has the value of the exact comparison written here. The function is only
  called with a positive number of date lines.
\<close>

definition ratio_below_threshold :: "nat \<Rightarrow> nat \<Rightarrow> bool" where
  "ratio_below_threshold valid_data_count date_line_count =
     (real valid_data_count / real date_line_count < 3 / 10)"

definition is_indicator_result_invalid :: "(string \<Rightarrow> bool) \<Rightarrow> string \<Rightarrow> bool" where
  "is_indicator_result_invalid py_float result_content =
     (if result_content = [] then True
      else (let lines = py_split (CHR 0x0A) result_content;
                counts = foldl (scan_line py_float) (0, 0) lines
            in if snd counts = 0 then True
               else ratio_below_threshold (fst counts) (snd counts)))"

text \<open>
  What the gate counts, line by line: a date-line is a line on which the loop increments
  \<open>date_line_count\<close>, a valid line one on which it increments \<open>valid_data_count\<close>.
\<close>

definition line_date_part :: "string \<Rightarrow> string" where
  "line_date_part line0 =
     (case py_split (CHR '':'') (py_strip line0) of [] \<Rightarrow> [] | first # others \<Rightarrow> py_strip first)"

definition line_value_part :: "string \<Rightarrow> string" where
  "line_value_part line0 =
     (case py_split (CHR '':'') (py_strip line0) of
        [] \<Rightarrow> [] | first # others \<Rightarrow> py_strip (py_join '':'' others))"

definition is_date_line :: "string \<Rightarrow> bool" where
  "is_date_line line0 =
     (CHR '':'' \<in> set (py_strip line0) \<and> length (line_date_part line0) = 10
      \<and> strptime_ymd_ok (line_date_part line0))"

definition is_valid_line :: "(string \<Rightarrow> bool) \<Rightarrow> string \<Rightarrow> bool" where
  "is_valid_line py_float line0 =
     (is_date_line line0
      \<and> \<not> list_ex (\<lambda>keyword. py_contains keyword (py_lower (line_value_part line0)))
               invalid_keywords
      \<and> (py_float (line_value_part line0) \<or> line_value_part line0 \<noteq> []))"

definition date_lines :: "string \<Rightarrow> nat" where
  "date_lines result_content = length (filter is_date_line (py_split (CHR 0x0A) result_content))"

definition valid_lines :: "(string \<Rightarrow> bool) \<Rightarrow> string \<Rightarrow> nat" where
  "valid_lines py_float result_content =
     length (filter (is_valid_line py_float) (py_split (CHR 0x0A) result_content))"

section \<open>Capability catalog and configuration (interface.py, default\_config.py)\<close>

text \<open>
  Python dictionaries keep insertion order, and the executor iterates over the catalog's
  keys, so the two tables are association lists in source order. An adapter is named by
  the function the table holds; the \<^verbatim>\<open>lambda\<close> entries are named after the function they
  wrap. A provider's entry is one callable or a list of callables.
\<close>

type_synonym adapter = string

datatype impl = Single adapter | Multi "adapter list"

definition TOOLS_CATEGORIES :: "(string \<times> string list) list" where
  "TOOLS_CATEGORIES =
     [(''core_stock_apis'', [''get_stock_data'']),
      (''technical_indicators'', [''get_indicators'']),
      (''fundamental_data'',
         [''get_fundamentals'', ''get_balance_sheet'', ''get_cashflow'', ''get_income_statement'']),
      (''news_data'',
         [''get_news'', ''get_global_news'', ''get_insider_sentiment'',
          ''get_insider_transactions'']),
      (''realtime_data'', [''get_realtime_data'']),
      (''dividend_data'', [''get_dividend_data''])]"

definition VENDOR_METHODS :: "(string \<times> (string \<times> impl) list) list" where
  "VENDOR_METHODS =
     [(''get_stock_data'',
         [(''alpha_vantage'', Single ''get_alpha_vantage_stock''),
          (''yfinance'', Single ''get_YFin_data_online''),
          (''akshare'', Single ''get_akshare_stock_data''),
          (''baostock'', Single ''get_baostock_stock_data''),
          (''local'', Single ''get_YFin_data'')]),
      (''get_indicators'',
         [(''alpha_vantage'', Single ''get_alpha_vantage_indicator''),
          (''yfinance'', Single ''get_stock_stats_indicators_window''),
          (''akshare'', Single ''get_akshare_indicators''),
          (''local'', Single ''get_stock_stats_indicators_window'')]),
      (''get_fundamentals'',
         [(''alpha_vantage'', Single ''get_alpha_vantage_fundamentals''),
          (''akshare'', Single ''get_akshare_company_info''),
          (''baostock'', Single ''get_baostock_fundamentals''),
          (''openai'', Single ''get_fundamentals_openai'')]),
      (''get_balance_sheet'',
         [(''alpha_vantage'', Single ''get_alpha_vantage_balance_sheet''),
          (''yfinance'', Single ''get_yfinance_balance_sheet''),
          (''akshare'', Single ''lambda get_akshare_financial_data balance_sheet''),
          (''baostock'', Single ''lambda get_baostock_balance_sheet''),
          (''local'', Single ''get_simfin_balance_sheet'')]),
      (''get_cashflow'',
         [(''alpha_vantage'', Single ''get_alpha_vantage_cashflow''),
          (''yfinance'', Single ''get_yfinance_cashflow''),
          (''akshare'', Single ''lambda get_akshare_financial_data cashflow''),
          (''baostock'', Single ''lambda get_baostock_cashflow''),
          (''local'', Single ''get_simfin_cashflow'')]),
      (''get_income_statement'',
         [(''alpha_vantage'', Single ''get_alpha_vantage_income_statement''),
          (''yfinance'', Single ''get_yfinance_income_statement''),
          (''akshare'', Single ''lambda get_akshare_financial_data income_statement''),
          (''baostock'', Single ''lambda get_baostock_income_statement''),
          (''local'', Single ''get_simfin_income_statements'')]),
      (''get_news'',
         [(''akshare'', Single ''get_akshare_stock_news''),
          (''alpha_vantage'', Single ''get_alpha_vantage_news''),
          (''openai'', Single ''get_stock_news_openai''),
          (''google'', Single ''get_google_news''),
          (''local'', Multi [''get_finnhub_news'', ''get_reddit_company_news'', ''get_google_news''])]),
      (''get_global_news'',
         [(''akshare'', Single ''get_akshare_global_news''),
          (''openai'', Single ''get_global_news_openai''),
          (''local'', Single ''get_reddit_global_news'')]),
      (''get_insider_sentiment'',
         [(''akshare'', Single ''get_akshare_market_sentiment''),
          (''local'', Single ''get_finnhub_company_insider_sentiment'')]),
      (''get_insider_transactions'',
         [(''alpha_vantage'', Single ''get_alpha_vantage_insider_transactions''),
          (''yfinance'', Single ''get_yfinance_insider_transactions''),
          (''local'', Single ''get_finnhub_company_insider_transactions'')]),
      (''get_realtime_data'',
         [(''akshare'', Single ''get_akshare_realtime_data'')]),
      (''get_dividend_data'',
         [(''baostock'', Single ''lambda get_baostock_dividend_data'')])]"

text \<open>
  The configuration as \<^verbatim>\<open>get_config()\<close> returns it. The engine reads three keys, each
  with \<^verbatim>\<open>config.get(key, {})\<close>, so a missing key is the empty map. An entry of
  \<^verbatim>\<open>market_vendors\<close> is itself a dictionary, read with
  \<^verbatim>\<open>market_config.get("primary", "")\<close> and \<^verbatim>\<open>market_config.get("fallback", "")\<close>.
\<close>

record config =
  data_vendors :: "string \<rightharpoonup> string"
  tool_vendors :: "string \<rightharpoonup> string"
  market_vendors :: "string \<rightharpoonup> (string \<rightharpoonup> string)"

definition DEFAULT_CONFIG :: config where
  "DEFAULT_CONFIG =
     \<lparr> data_vendors = map_of
         [(''core_stock_apis'', ''akshare''),
          (''technical_indicators'', ''akshare''),
          (''fundamental_data'', ''akshare''),
          (''news_data'', ''akshare'')],
       tool_vendors = map_of
         [(''get_stock_data'', ''akshare''),
          (''get_indicators'', ''yfinance,akshare''),
          (''get_global_news'', ''openai,akshare''),
          (''get_news'', ''akshare,openai'')],
       market_vendors = map_of
         [(''A_STOCK'', map_of [(''primary'', ''akshare''), (''fallback'', ''baostock,yfinance'')]),
          (''HK_STOCK'', map_of [(''primary'', ''akshare''), (''fallback'', ''yfinance'')]),
          (''US_STOCK'',
             map_of [(''primary'', ''akshare''), (''fallback'', ''yfinance,alpha_vantage'')])] \<rparr>"

text \<open>
  Exceptions are a class and the text of \<^verbatim>\<open>str(e)\<close>. The classes are the ones the
  engine raises or names in an \<^verbatim>\<open>except\<close> clause; an exception of a subclass counts as
  the listed class that catches it, and \<open>OtherException\<close> is any other subclass of
  \<^verbatim>\<open>Exception\<close>. Adapters raise subclasses of \<^verbatim>\<open>Exception\<close>.
\<close>

datatype exc_class =
    AlphaVantageRateLimitError
  | ConnectionError
  | ConnectionAbortedError
  | ConnectionResetError
  | TimeoutError
  | ValueError
  | RuntimeError
  | OtherException

datatype py_exception = Exc exc_class string

definition quoted :: "string \<Rightarrow> string" where
  "quoted s = [CHR 0x27] @ s @ [CHR 0x27]"

definition get_category_for_method :: "string \<Rightarrow> py_exception + string" where
  "get_category_for_method method =
     (case find (\<lambda>entry. method \<in> set (snd entry)) TOOLS_CATEGORIES of
        Some entry \<Rightarrow> Inr (fst entry)
      | None \<Rightarrow> Inl (Exc ValueError (''Method '' @ quoted method @ '' not found in any category'')))"

definition dict_get :: "(string \<rightharpoonup> string) \<Rightarrow> string \<Rightarrow> string \<Rightarrow> string" where
  "dict_get d key dflt = (case d key of None \<Rightarrow> dflt | Some v \<Rightarrow> v)"

text \<open>
  \<^verbatim>\<open>get_vendor(category, method=None, symbol=None)\<close>. The market of a symbol is
  \<^verbatim>\<open>get_market_info(symbol)['market']\<close>, which is \<open>identify_market symbol\<close>. When the
  market has an entry whose \<^verbatim>\<open>primary\<close> and \<^verbatim>\<open>fallback\<close> are both empty, none of the
  three \<^verbatim>\<open>return\<close> statements of the market block is reached and control falls through
  to the tool-level lookup.
\<close>

definition market_level_vendors :: "config \<Rightarrow> string option \<Rightarrow> string option" where
  "market_level_vendors cfg symbol =
     (case symbol of
        None \<Rightarrow> None
      | Some ticker \<Rightarrow>
          if ticker = [] then None
          else (case market_vendors cfg (identify_market ticker) of
                  None \<Rightarrow> None
                | Some market_config \<Rightarrow>
                    (let primary = dict_get market_config ''primary'' [];
                         fallback = dict_get market_config ''fallback'' []
                     in if primary \<noteq> [] \<and> fallback \<noteq> []
                        then Some (primary @ '','' @ fallback)
                        else if primary \<noteq> [] then Some primary
                        else if fallback \<noteq> [] then Some fallback
                        else None)))"

definition tool_level_vendors :: "config \<Rightarrow> string option \<Rightarrow> string option" where
  "tool_level_vendors cfg method =
     (case method of
        None \<Rightarrow> None
      | Some m \<Rightarrow> if m = [] then None else tool_vendors cfg m)"

definition get_vendor :: "config \<Rightarrow> string \<Rightarrow> string option \<Rightarrow> string option \<Rightarrow> string" where
  "get_vendor cfg category method symbol =
     (case market_level_vendors cfg symbol of
        Some vendors \<Rightarrow> vendors
      | None \<Rightarrow>
          (case tool_level_vendors cfg method of
             Some vendors \<Rightarrow> vendors
           | None \<Rightarrow> dict_get (data_vendors cfg) category ''default''))"

text \<open>
  The test of \<^verbatim>\<open>route_to_vendor\<close> for a market-specific configuration:
  \<^verbatim>\<open>symbol and get_market_info(symbol)['market'] in market_vendors\<close>.
\<close>

definition is_market_scoped :: "config \<Rightarrow> string option \<Rightarrow> bool" where
  "is_market_scoped cfg symbol =
     (case symbol of
        None \<Rightarrow> False
      | Some ticker \<Rightarrow>
          ticker \<noteq> []
          \<and> (case market_vendors cfg (identify_market ticker) of
                 None \<Rightarrow> False
               | Some market_config \<Rightarrow> True))"

text \<open>\<^verbatim>\<open>[v.strip() for v in vendor_config.split(',')]\<close>\<close>

definition split_vendors :: "string \<Rightarrow> string list" where
  "split_vendors vendor_config = map py_strip (py_split (CHR '','') vendor_config)"

text \<open>The construction of \<^verbatim>\<open>fallback_vendors\<close> from the primary vendors and the catalog.\<close>

definition add_missing :: "string list \<Rightarrow> string \<Rightarrow> string list" where
  "add_missing fallback_vendors vendor =
     (if vendor \<notin> set fallback_vendors then fallback_vendors @ [vendor] else fallback_vendors)"

definition build_fallback_vendors ::
  "config \<Rightarrow> string option \<Rightarrow> string list \<Rightarrow> (string \<times> impl) list \<Rightarrow> string list" where
  "build_fallback_vendors cfg symbol primary_vendors method_impls =
     (if is_market_scoped cfg symbol then primary_vendors
      else (let all_available_vendors = map fst method_impls
            in foldl add_missing primary_vendors all_available_vendors))"

section \<open>Fallback executor and result aggregation (route\_to\_vendor)\<close>

text \<open>
  A value returned by an adapter is a string or some other object, of a type \<open>'v\<close> that
  is left open. One invocation of an adapter returns a value or raises.
\<close>

datatype 'v pyval = PyStr string | PyObj 'v

datatype 'v outcome = Returns "'v pyval" | Raises py_exception

text \<open>
  What is outside the engine during one call of \<^verbatim>\<open>route_to_vendor\<close>: the configuration
  that \<^verbatim>\<open>get_config()\<close> returns, the behaviour of the adapters on the arguments of the
  call (the outcome of the adapter called as the \<open>n\<close>-th invocation of the call, counting
  from 0, so that an adapter invoked twice may behave differently), Python's \<^verbatim>\<open>str\<close>
  on the objects that are not strings, and whether \<^verbatim>\<open>float\<close> accepts a string.
\<close>

record 'v runtime =
  rt_config :: config
  rt_call :: "nat \<Rightarrow> adapter \<Rightarrow> 'v outcome"
  rt_str :: "'v \<Rightarrow> string"
  rt_float :: "string \<Rightarrow> bool"

definition str_of :: "('v \<Rightarrow> string) \<Rightarrow> 'v pyval \<Rightarrow> string" where
  "str_of to_str value = (case value of PyStr s \<Rightarrow> s | PyObj v \<Rightarrow> to_str v)"

text \<open>
  The four outcomes of one adapter invocation that the \<^verbatim>\<open>try\<close> statement tells apart
  (each one is reported by a \<^verbatim>\<open>print\<close> and then the loop goes on to the next adapter), and
  the \<^verbatim>\<open>except\<close> clauses in their order.
\<close>

datatype attempt_result = Succeeded | RateLimited | NetworkFailed | OtherFailed

type_synonym event = "string \<times> adapter \<times> attempt_result"

definition network_keywords :: "string list" where
  "network_keywords = [''connection'', ''network'', ''timeout'', ''remote'', ''aborted'']"

fun classify_exception :: "py_exception \<Rightarrow> attempt_result" where
  "classify_exception (Exc cls message) =
     (if cls = AlphaVantageRateLimitError then RateLimited
      else if cls \<in> set [ConnectionError, ConnectionAbortedError, ConnectionResetError, TimeoutError]
      then NetworkFailed
      else (let error_str = py_lower message
            in if list_ex (\<lambda>keyword. py_contains keyword error_str) network_keywords
               then NetworkFailed
               else OtherFailed))"

text \<open>
  The variables of the call. \<open>attempted\<close> and \<open>events\<close> are not variables of the source:
  they record the providers for which \<^verbatim>\<open>vendor_attempt_count\<close> was incremented and the
  adapter invocations, each in the order of execution.
\<close>

record 'v exec_state =
  results :: "'v pyval list"
  vendor_attempt_count :: nat
  any_primary_vendor_attempted :: bool
  successful_vendor :: "string option"
  attempted :: "string list"
  events :: "event list"

definition initial_state :: "'v exec_state" where
  "initial_state =
     \<lparr> results = [], vendor_attempt_count = 0, any_primary_vendor_attempted = False,
       successful_vendor = None, attempted = [], events = [] \<rparr>"

text \<open>
  The inner loop over \<^verbatim>\<open>vendor_methods\<close>, on the pair of \<^verbatim>\<open>vendor_results\<close> and the
  invocations made so far. Every \<^verbatim>\<open>except\<close> clause ends in \<^verbatim>\<open>continue\<close>.
\<close>

fun run_vendor_methods ::
  "(nat \<Rightarrow> adapter \<Rightarrow> 'v outcome) \<Rightarrow> string \<Rightarrow> adapter list
     \<Rightarrow> 'v pyval list \<times> event list \<Rightarrow> 'v pyval list \<times> event list" where
  "run_vendor_methods call vendor [] acc = acc"
| "run_vendor_methods call vendor (impl_func # rest) acc =
     (case call (length (snd acc)) impl_func of
        Returns result \<Rightarrow>
          run_vendor_methods call vendor rest
            (fst acc @ [result], snd acc @ [(vendor, impl_func, Succeeded)])
      | Raises e \<Rightarrow>
          run_vendor_methods call vendor rest
            (fst acc, snd acc @ [(vendor, impl_func, classify_exception e)]))"

definition vendor_methods_of :: "impl \<Rightarrow> adapter list" where
  "vendor_methods_of vendor_impl =
     (case vendor_impl of Multi impls \<Rightarrow> impls | Single impl_func \<Rightarrow> [impl_func])"

definition should_fallback_due_to_invalid_data ::
  "'v runtime \<Rightarrow> string \<Rightarrow> 'v pyval list \<Rightarrow> bool" where
  "should_fallback_due_to_invalid_data rt method vendor_results =
     (case vendor_results of
        [result] \<Rightarrow>
          method = ''get_indicators''
          \<and> is_indicator_result_invalid (rt_float rt) (str_of (rt_str rt) result)
      | _ \<Rightarrow> False)"

definition stop_after_first_success :: "string list \<Rightarrow> string \<Rightarrow> bool" where
  "stop_after_first_success primary_vendors method =
     (length primary_vendors = 1 \<or> method \<in> set [''get_indicators'', ''get_stock_data''])"

text \<open>
  The body of the loop over \<^verbatim>\<open>fallback_vendors\<close> for a provider that the catalog has
  for the method. The result is the new state and whether the loop is left by \<^verbatim>\<open>break\<close>.
\<close>

definition attempt_vendor ::
  "'v runtime \<Rightarrow> string \<Rightarrow> string list \<Rightarrow> string \<Rightarrow> impl \<Rightarrow> 'v exec_state
     \<Rightarrow> 'v exec_state \<times> bool" where
  "attempt_vendor rt method primary_vendors vendor vendor_impl st =
     (let is_primary_vendor = vendor \<in> set primary_vendors;
          st1 = st\<lparr> vendor_attempt_count := vendor_attempt_count st + 1,
                    any_primary_vendor_attempted :=
                      (any_primary_vendor_attempted st \<or> is_primary_vendor),
                    attempted := attempted st @ [vendor] \<rparr>;
          run = run_vendor_methods (rt_call rt) vendor (vendor_methods_of vendor_impl)
                  ([], events st1);
          vendor_results = fst run;
          st2 = st1\<lparr> events := snd run \<rparr>
      in if vendor_results \<noteq> [] then
           (if should_fallback_due_to_invalid_data rt method vendor_results then (st2, False)
            else (st2\<lparr> results := results st2 @ vendor_results,
                       successful_vendor := Some vendor \<rparr>,
                  stop_after_first_success primary_vendors method))
         else (st2, False))"

fun vendor_loop ::
  "'v runtime \<Rightarrow> string \<Rightarrow> (string \<times> impl) list \<Rightarrow> string list \<Rightarrow> string list
     \<Rightarrow> 'v exec_state \<Rightarrow> 'v exec_state" where
  "vendor_loop rt method method_impls primary_vendors [] st = st"
| "vendor_loop rt method method_impls primary_vendors (vendor # rest) st =
     (case map_of method_impls vendor of
        None \<Rightarrow> vendor_loop rt method method_impls primary_vendors rest st
      | Some vendor_impl \<Rightarrow>
          (case attempt_vendor rt method primary_vendors vendor vendor_impl st of
             (st', stop) \<Rightarrow>
               if stop then st'
               else vendor_loop rt method method_impls primary_vendors rest st'))"

text \<open>
  The end of the function: the \<^verbatim>\<open>RuntimeError\<close> when \<^verbatim>\<open>results\<close> is empty, the only
  result when there is one, and otherwise the results converted with \<^verbatim>\<open>str\<close> and joined
  with a newline.
\<close>

definition final_result :: "'v runtime \<Rightarrow> string \<Rightarrow> 'v exec_state \<Rightarrow> py_exception + 'v pyval" where
  "final_result rt method st =
     (if results st = []
      then Inl (Exc RuntimeError (''All vendor implementations failed for method '' @ quoted method))
      else if length (results st) = 1 then Inr (hd (results st))
      else Inr (PyStr (py_join [CHR 0x0A] (map (str_of (rt_str rt)) (results st)))))"

text \<open>
  The symbol used for routing: the first positional argument, else the keyword argument
  \<^verbatim>\<open>symbol\<close>, else \<^verbatim>\<open>ticker\<close>. Arguments are modelled as strings; the engine looks at
  no other argument.
\<close>

definition extract_symbol :: "string list \<Rightarrow> (string \<rightharpoonup> string) \<Rightarrow> string option" where
  "extract_symbol args kwargs =
     (case args of
        a # _ \<Rightarrow> Some a
      | [] \<Rightarrow> (case kwargs ''symbol'' of
                 Some s \<Rightarrow> Some s
               | None \<Rightarrow> kwargs ''ticker''))"

text \<open>
  The first part of \<^verbatim>\<open>route_to_vendor\<close>, up to the construction of
  \<^verbatim>\<open>fallback_vendors\<close>: the category lookup (which raises for a method of no
  category), the symbol, the configured vendors, the check that the catalog has the
  method, and the fallback ordering.
\<close>

record call_plan =
  plan_primary :: "string list"
  plan_fallback :: "string list"
  plan_impls :: "(string \<times> impl) list"

definition fallback_plan ::
  "config \<Rightarrow> string \<Rightarrow> string list \<Rightarrow> (string \<rightharpoonup> string) \<Rightarrow> py_exception + call_plan" where
  "fallback_plan cfg method args kwargs =
     (case get_category_for_method method of
        Inl e \<Rightarrow> Inl e
      | Inr category \<Rightarrow>
          (let symbol = extract_symbol args kwargs;
               vendor_config = get_vendor cfg category (Some method) symbol;
               primary_vendors = split_vendors vendor_config
           in case map_of VENDOR_METHODS method of
                None \<Rightarrow> Inl (Exc ValueError (''Method '' @ quoted method @ '' not supported''))
              | Some method_impls \<Rightarrow>
                  Inr \<lparr> plan_primary = primary_vendors,
                        plan_fallback =
                          build_fallback_vendors cfg symbol primary_vendors method_impls,
                        plan_impls = method_impls \<rparr>))"

text \<open>
  \<^verbatim>\<open>route_to_vendor(method, *args, **kwargs)\<close>: the value returned or the exception
  raised, together with the final state of the call (the initial state when the function
  raises before the loop).
\<close>

definition route_to_vendor ::
  "'v runtime \<Rightarrow> string \<Rightarrow> string list \<Rightarrow> (string \<rightharpoonup> string)
     \<Rightarrow> (py_exception + 'v pyval) \<times> 'v exec_state" where
  "route_to_vendor rt method args kwargs =
     (case fallback_plan (rt_config rt) method args kwargs of
        Inl e \<Rightarrow> (Inl e, initial_state)
      | Inr plan \<Rightarrow>
          (let st = vendor_loop rt method (plan_impls plan) (plan_primary plan)
                      (plan_fallback plan) initial_state
           in (final_result rt method st, st)))"

text \<open>
  The resolution order as the specification words it, for comparison with
  \<open>get_vendor\<close>: with a symbol whose market has an entry in \<^verbatim>\<open>market_vendors\<close>,
  \<^verbatim>\<open>primary\<close> then \<^verbatim>\<open>fallback\<close>, empty parts skipped; else the tool-level entry; else
  the category-level entry or \<^verbatim>\<open>"default"\<close>.
\<close>

definition resolve_providers_as_specified ::
  "config \<Rightarrow> string \<Rightarrow> string \<Rightarrow> string option \<Rightarrow> string" where
  "resolve_providers_as_specified cfg category method symbol =
     (case (case symbol of None \<Rightarrow> None | Some ticker \<Rightarrow> market_vendors cfg (identify_market ticker)) of
        Some market_config \<Rightarrow>
          py_join '','' (filter (\<lambda>part. part \<noteq> [])
            [dict_get market_config ''primary'' [], dict_get market_config ''fallback'' []])
      | None \<Rightarrow>
          (case tool_vendors cfg method of
             Some vendors \<Rightarrow> vendors
           | None \<Rightarrow> dict_get (data_vendors cfg) category ''default''))"

text \<open>
  A configuration whose entry for the US market names no provider, with a tool-level
  entry for \<^verbatim>\<open>get_stock_data\<close>.
\<close>

definition blank_market_config :: config where
  "blank_market_config =
     \<lparr> data_vendors = Map.empty,
       tool_vendors = map_of [(''get_stock_data'', ''yfinance'')],
       market_vendors = map_of [(''US_STOCK'', Map.empty)] \<rparr>"

text \<open>The methods that some category of \<^verbatim>\<open>TOOLS_CATEGORIES\<close> lists.\<close>

definition registered_methods :: "string list" where
  "registered_methods = concat (map snd TOOLS_CATEGORIES)"

text \<open>
  Two indicator reports in the format of the adapters, a header and ten date lines: in
  the first, two lines carry a number and eight are marked as a holiday; in the second,
  four lines carry a number.
\<close>

definition holiday_lines :: "string list" where
  "holiday_lines =
     [''## rsi values from 2024-02-05 to 2024-02-14:'',
      [],
      ''2024-02-14: holiday'',
      ''2024-02-13: holiday'',
      ''2024-02-12: holiday'',
      ''2024-02-11: holiday'',
      ''2024-02-10: holiday'',
      ''2024-02-09: holiday'',
      ''2024-02-08: holiday'',
      ''2024-02-07: holiday'',
      ''2024-02-06: 52.3100'',
      ''2024-02-05: 51.8700'']"

definition holiday_report :: string where
  "holiday_report = py_join [CHR 0x0A] holiday_lines"

definition partial_lines :: "string list" where
  "partial_lines =
     [''## rsi values from 2024-02-05 to 2024-02-14:'',
      [],
      ''2024-02-14: holiday'',
      ''2024-02-13: holiday'',
      ''2024-02-12: holiday'',
      ''2024-02-11: N/A: Not a trading day'',
      ''2024-02-10: N/A: Not a trading day'',
      ''2024-02-09: holiday'',
      ''2024-02-08: 53.0200'',
      ''2024-02-07: 52.9000'',
      ''2024-02-06: 52.3100'',
      ''2024-02-05: 51.8700'']"

definition partial_report :: string where
  "partial_report = py_join [CHR 0x0A] partial_lines"

text \<open>
  Runtimes for the examples. In the first every adapter raises a connection error. In
  the second the only configured provider is \<^verbatim>\<open>baostock\<close>. Its stock adapter, called
  for \<^verbatim>\<open>AAPL\<close>, finds the market unsupported in \<^verbatim>\<open>validate_market_support\<close>, catches
  the \<^verbatim>\<open>BaoStockDataError\<close> itself and returns the text of
  \<^verbatim>\<open>handle_baostock_exception\<close> (the message contains none of the keywords for which
  that function raises again); every other adapter returns a table.
\<close>

definition failing_runtime :: "unit runtime" where
  "failing_runtime =
     \<lparr> rt_config = DEFAULT_CONFIG,
       rt_call = (\<lambda>n f. Raises (Exc ConnectionError ''connection reset by peer'')),
       rt_str = (\<lambda>u. ''None''),
       rt_float = (\<lambda>s. False) \<rparr>"

definition baostock_first_runtime :: "unit runtime" where
  "baostock_first_runtime =
     \<lparr> rt_config =
         \<lparr> data_vendors = map_of [(''core_stock_apis'', ''baostock'')],
           tool_vendors = Map.empty,
           market_vendors = Map.empty \<rparr>,
       rt_call = (\<lambda>n f.
         if f = ''get_baostock_stock_data''
         then Returns (PyStr
                (''Error retrieving stock data for AAPL: Market US_STOCK is not supported ''
                 @ ''by BaoStock for stock data retrieval (A-shares only)''))
         else Returns (PyStr ''Date,Open,High,Low,Close,Volume'')),
       rt_str = (\<lambda>u. ''None''),
       rt_float = (\<lambda>s. False) \<rparr>"

text \<open>
  The adapter invocations that an attempt of a provider makes: none for a provider that
  the catalog does not have for the method, else one for each of its callables, in order.
\<close>

definition invocations_of :: "(string \<times> impl) list \<Rightarrow> string \<Rightarrow> (string \<times> adapter) list" where
  "invocations_of method_impls vendor =
     (case map_of method_impls vendor of
        None \<Rightarrow> []
      | Some vendor_impl \<Rightarrow> map (Pair vendor) (vendor_methods_of vendor_impl))"

definition invocation :: "event \<Rightarrow> string \<times> adapter" where
  "invocation ev = (fst ev, fst (snd ev))"

text \<open>
  Three more runtimes on the default configuration: one whose \<^verbatim>\<open>akshare\<close> stock
  adapter times out while every other adapter returns a table, one whose adapters all
  return a report that names the adapter, and one whose \<^verbatim>\<open>akshare\<close> indicator adapter
  returns the report of the holiday week while the other indicator adapters return the
  report with four values.
\<close>

definition timeout_then_data_runtime :: "unit runtime" where
  "timeout_then_data_runtime =
     \<lparr> rt_config = DEFAULT_CONFIG,
       rt_call = (\<lambda>n f.
         if f = ''get_akshare_stock_data'' then Raises (Exc TimeoutError ''timed out'')
         else Returns (PyStr ''Date,Open,High,Low,Close,Volume'')),
       rt_str = (\<lambda>u. ''None''),
       rt_float = (\<lambda>s. False) \<rparr>"

definition reporting_runtime :: "unit runtime" where
  "reporting_runtime =
     \<lparr> rt_config = DEFAULT_CONFIG,
       rt_call = (\<lambda>n f. Returns (PyStr (''news from '' @ f))),
       rt_str = (\<lambda>u. ''None''),
       rt_float = (\<lambda>s. False) \<rparr>"

definition indicator_runtime :: "unit runtime" where
  "indicator_runtime =
     \<lparr> rt_config = DEFAULT_CONFIG,
       rt_call = (\<lambda>n f.
         if f = ''get_akshare_indicators'' then Returns (PyStr holiday_report)
         else Returns (PyStr partial_report)),
       rt_str = (\<lambda>u. ''None''),
       rt_float = (\<lambda>s. False) \<rparr>"

section \<open>Symbol formatting\<close>

lemma format_symbol_no_rule:
  "\<not> has_format_rule vendor market
   \<Longrightarrow> format_symbol_for_vendor symbol vendor (Some market) = py_strip (py_upper symbol)"
  by (auto simp: format_symbol_for_vendor_def has_format_rule_def Let_def)

lemma format_symbol_market_default:
  "format_symbol_for_vendor symbol vendor None
     = format_symbol_for_vendor symbol vendor (Some (identify_market symbol))"
  by (simp add: format_symbol_for_vendor_def)

text \<open>
  Claim C6, as the code has it. \<open>format_symbol_for_vendor\<close> is a total function of its
  string arguments (the source has no \<^verbatim>\<open>raise\<close> and no operation that fails on a
  string). For a provider and market with no formatting rule, an unknown provider and
  the market \<^verbatim>\<open>UNKNOWN\<close> among them, the result is the symbol upper-cased and stripped
  of surrounding whitespace; it is the input itself when the input is already in that
  form.
\<close>

theorem format_symbol_fallback_is_normalised_symbol:
  assumes "\<not> has_format_rule vendor (case market of None \<Rightarrow> identify_market symbol | Some m \<Rightarrow> m)"
  shows "format_symbol_for_vendor symbol vendor market = py_strip (py_upper symbol)
         \<and> (py_strip (py_upper symbol) = symbol
              \<longrightarrow> format_symbol_for_vendor symbol vendor market = symbol)"
proof (cases market)
  case None
  with assms show ?thesis
    by (simp add: format_symbol_market_default format_symbol_no_rule)
next
  case (Some m)
  with assms show ?thesis
    by (simp add: format_symbol_no_rule)
qed

theorem format_symbol_fallback_witness:
  "\<not> has_format_rule ''tushare'' (identify_market '' aapl'')
   \<and> format_symbol_for_vendor '' aapl'' ''tushare'' None = ''AAPL''"
proof -
  have h: "\<not> has_format_rule ''tushare''
             (case (None :: string option) of None \<Rightarrow> identify_market '' aapl'' | Some m \<Rightarrow> m)"
    by code_simp
  have n: "py_strip (py_upper '' aapl'') = ''AAPL''"
    by code_simp
  from format_symbol_fallback_is_normalised_symbol [OF h] n h show ?thesis
    by simp
qed

text \<open>
  The claim as stated fails: for a lower-case symbol and an unknown provider the result
  is not the input.
\<close>

theorem format_symbol_not_identity:
  "\<not> has_format_rule ''tushare'' (identify_market ''aapl'')
   \<and> format_symbol_for_vendor ''aapl'' ''tushare'' None \<noteq> ''aapl''"
  by code_simp

section \<open>Catalog lookups\<close>

lemma registered_methods_list:
  "registered_methods =
     [''get_stock_data'', ''get_indicators'', ''get_fundamentals'', ''get_balance_sheet'',
      ''get_cashflow'', ''get_income_statement'', ''get_news'', ''get_global_news'',
      ''get_insider_sentiment'', ''get_insider_transactions'', ''get_realtime_data'',
      ''get_dividend_data'']"
  by (simp add: registered_methods_def TOOLS_CATEGORIES_def)

lemma category_of_unregistered:
  assumes "method \<notin> set registered_methods"
  shows "get_category_for_method method
           = Inl (Exc ValueError (''Method '' @ quoted method @ '' not found in any category''))"
proof -
  have "find (\<lambda>entry. method \<in> set (snd entry)) TOOLS_CATEGORIES = None"
    using assms by (auto simp: find_None_iff registered_methods_def)
  then show ?thesis
    by (simp add: get_category_for_method_def)
qed

lemma category_of_registered:
  assumes "method \<in> set registered_methods"
  shows "\<exists>category. get_category_for_method method = Inr category"
proof -
  from assms obtain entry where "entry \<in> set TOOLS_CATEGORIES" "method \<in> set (snd entry)"
    by (auto simp: registered_methods_def)
  then have "\<exists>x. x \<in> set TOOLS_CATEGORIES \<and> method \<in> set (snd x)"
    by blast
  then have "find (\<lambda>entry. method \<in> set (snd entry)) TOOLS_CATEGORIES \<noteq> None"
    unfolding find_None_iff by blast
  then show ?thesis
    by (auto simp: get_category_for_method_def)
qed

lemma catalog_has_registered:
  assumes "method \<in> set registered_methods"
  shows "\<exists>method_impls. map_of VENDOR_METHODS method = Some method_impls"
  using assms unfolding registered_methods_list VENDOR_METHODS_def by auto

lemma catalog_vendors_distinct:
  assumes "map_of VENDOR_METHODS method = Some method_impls"
  shows "distinct (map fst method_impls)"
  using assms unfolding VENDOR_METHODS_def by (auto split: if_splits)

lemma registered_has_plan:
  assumes "method \<in> set registered_methods"
  shows "\<exists>category method_impls.
           get_category_for_method method = Inr category
           \<and> map_of VENDOR_METHODS method = Some method_impls
           \<and> fallback_plan cfg method args kwargs =
               Inr \<lparr> plan_primary =
                       split_vendors (get_vendor cfg category (Some method) (extract_symbol args kwargs)),
                     plan_fallback =
                       build_fallback_vendors cfg (extract_symbol args kwargs)
                         (split_vendors (get_vendor cfg category (Some method) (extract_symbol args kwargs)))
                         method_impls,
                     plan_impls = method_impls \<rparr>"
proof -
  from category_of_registered [OF assms] obtain category
    where c: "get_category_for_method method = Inr category" by blast
  from catalog_has_registered [OF assms] obtain method_impls
    where m: "map_of VENDOR_METHODS method = Some method_impls" by blast
  show ?thesis
    using c m by (simp add: fallback_plan_def Let_def)
qed

lemma unregistered_has_no_plan:
  assumes "method \<notin> set registered_methods"
  shows "fallback_plan cfg method args kwargs
           = Inl (Exc ValueError (''Method '' @ quoted method @ '' not found in any category''))"
  by (simp add: fallback_plan_def category_of_unregistered [OF assms])

section \<open>Unknown methods\<close>

text \<open>
  Claim C10. For a method that no category of the catalog lists, \<open>route_to_vendor\<close>
  raises the \<^verbatim>\<open>ValueError\<close> of \<open>get_category_for_method\<close> and no provider has been
  attempted: no adapter was invoked and the attempt counter was never incremented. The
  exception is not the \<^verbatim>\<open>RuntimeError\<close> that reports the failure of all providers.
\<close>

theorem unknown_method_raises_value_error:
  assumes "method \<notin> set registered_methods"
  shows "fst (route_to_vendor rt method args kwargs)
           = Inl (Exc ValueError (''Method '' @ quoted method @ '' not found in any category''))
         \<and> events (snd (route_to_vendor rt method args kwargs)) = []
         \<and> attempted (snd (route_to_vendor rt method args kwargs)) = []
         \<and> vendor_attempt_count (snd (route_to_vendor rt method args kwargs)) = 0
         \<and> fst (route_to_vendor rt method args kwargs)
             \<noteq> Inl (Exc RuntimeError (''All vendor implementations failed for method '' @ quoted method))"
  by (simp add: route_to_vendor_def unregistered_has_no_plan [OF assms] initial_state_def)

theorem unknown_method_witness:
  "''get_weather'' \<notin> set registered_methods
   \<and> fst (route_to_vendor failing_runtime ''get_weather'' [''AAPL''] Map.empty)
       = Inl (Exc ValueError (''Method '' @ quoted ''get_weather'' @ '' not found in any category''))
   \<and> events (snd (route_to_vendor failing_runtime ''get_weather'' [''AAPL''] Map.empty)) = []"
proof -
  have h: "''get_weather'' \<notin> set registered_methods"
    by (simp add: registered_methods_list)
  from unknown_method_raises_value_error [OF h, of failing_runtime "[''AAPL'']" Map.empty] h
  show ?thesis by simp
qed

section \<open>Configuration resolver\<close>

lemma market_level_vendors_named:
  assumes "symbol = Some ticker" "ticker \<noteq> []"
    and "market_vendors cfg (identify_market ticker) = Some market_config"
    and "dict_get market_config ''primary'' [] \<noteq> [] \<or> dict_get market_config ''fallback'' [] \<noteq> []"
  shows "market_level_vendors cfg symbol =
           Some (py_join '','' (filter (\<lambda>part. part \<noteq> [])
                  [dict_get market_config ''primary'' [], dict_get market_config ''fallback'' []]))"
  using assms by (auto simp: market_level_vendors_def Let_def)

lemma market_level_implies_scoped:
  assumes "market_level_vendors cfg symbol = Some vendors"
  shows "is_market_scoped cfg symbol"
  using assms
  by (auto simp: market_level_vendors_def is_market_scoped_def split: option.splits if_splits)

text \<open>
  Claim C3, as the code has it. \<open>entry\<close> is the \<^verbatim>\<open>market_vendors\<close> entry of the market
  of a non-empty symbol, \<open>primary\<close> and \<open>fallback\<close> its two parts (empty when there is
  no such entry or the part is missing), and \<open>tool\<close> the \<^verbatim>\<open>tool_vendors\<close> entry of a
  non-empty method. If one of the two parts is not empty, \<open>get_vendor\<close> returns
  \<open>primary\<close> and \<open>fallback\<close> joined by a comma, an empty part left out, and the call is
  market-scoped for \<open>route_to_vendor\<close>. Otherwise, which includes an entry whose parts
  are both empty, it returns the tool-level entry when there is one, and else the
  category-level entry or \<^verbatim>\<open>"default"\<close>.
\<close>

theorem get_vendor_precedence:
  assumes "entry = (case symbol of
                      None \<Rightarrow> None
                    | Some ticker \<Rightarrow>
                        if ticker = [] then None else market_vendors cfg (identify_market ticker))"
    and "primary = (case entry of None \<Rightarrow> [] | Some market_config \<Rightarrow> dict_get market_config ''primary'' [])"
    and "fallback = (case entry of None \<Rightarrow> [] | Some market_config \<Rightarrow> dict_get market_config ''fallback'' [])"
    and "tool = (case method of
                   None \<Rightarrow> None
                 | Some m \<Rightarrow> if m = [] then None else tool_vendors cfg m)"
  shows "get_vendor cfg category method symbol =
           (if primary \<noteq> [] \<or> fallback \<noteq> []
            then py_join '','' (filter (\<lambda>part. part \<noteq> []) [primary, fallback])
            else (case tool of
                    Some vendors \<Rightarrow> vendors
                  | None \<Rightarrow> dict_get (data_vendors cfg) category ''default''))
         \<and> (primary \<noteq> [] \<or> fallback \<noteq> [] \<longrightarrow> is_market_scoped cfg symbol)"
proof (cases "primary \<noteq> [] \<or> fallback \<noteq> []")
  case True
  with assms obtain ticker market_config where
    e: "symbol = Some ticker" "ticker \<noteq> []"
       "market_vendors cfg (identify_market ticker) = Some market_config"
       "entry = Some market_config"
    by (auto split: option.splits if_splits)
  with True assms have
    nonblank: "dict_get market_config ''primary'' [] \<noteq> [] \<or> dict_get market_config ''fallback'' [] \<noteq> []"
    by simp
  have m: "market_level_vendors cfg symbol =
             Some (py_join '','' (filter (\<lambda>part. part \<noteq> []) [primary, fallback]))"
    using market_level_vendors_named [OF e(1) e(2) e(3) nonblank] assms(2,3) e(4) by simp
  from m market_level_implies_scoped [OF m] True show ?thesis
    by (simp add: get_vendor_def)
next
  case False
  then have "market_level_vendors cfg symbol = None"
    using assms(1,2,3)
    by (auto simp: market_level_vendors_def Let_def split: option.splits if_splits)
  moreover have "tool_level_vendors cfg method = tool"
    using assms(4) by (simp add: tool_level_vendors_def)
  ultimately show ?thesis
    using False by (simp add: get_vendor_def)
qed

lemma identify_market_AAPL: "identify_market ''AAPL'' = ''US_STOCK''"
  by code_simp

lemma identify_market_GSPC: "identify_market ''^GSPC'' = ''UNKNOWN''"
  by code_simp

theorem get_vendor_precedence_witness:
  "get_vendor DEFAULT_CONFIG ''core_stock_apis'' (Some ''get_stock_data'') (Some ''AAPL'')
     = ''akshare,yfinance,alpha_vantage''
   \<and> is_market_scoped DEFAULT_CONFIG (Some ''AAPL'')
   \<and> get_vendor DEFAULT_CONFIG ''core_stock_apis'' (Some ''get_stock_data'') (Some ''^GSPC'')
       = ''akshare''
   \<and> get_vendor DEFAULT_CONFIG ''fundamental_data'' (Some ''get_cashflow'') None = ''akshare''
   \<and> get_vendor DEFAULT_CONFIG ''dividend_data'' (Some ''get_dividend_data'') None = ''default''"
proof -
  note ev = identify_market_AAPL identify_market_GSPC DEFAULT_CONFIG_def dict_get_def
  have "get_vendor DEFAULT_CONFIG ''core_stock_apis'' (Some ''get_stock_data'') (Some ''AAPL'')
          = ''akshare,yfinance,alpha_vantage''
        \<and> is_market_scoped DEFAULT_CONFIG (Some ''AAPL'')"
    using get_vendor_precedence [OF refl refl refl refl,
        of DEFAULT_CONFIG "''core_stock_apis''" "Some ''get_stock_data''" "Some ''AAPL''"]
    by (simp add: ev)
  moreover
  have "get_vendor DEFAULT_CONFIG ''core_stock_apis'' (Some ''get_stock_data'') (Some ''^GSPC'')
          = ''akshare''"
    using get_vendor_precedence [OF refl refl refl refl,
        of DEFAULT_CONFIG "''core_stock_apis''" "Some ''get_stock_data''" "Some ''^GSPC''"]
    by (simp add: ev)
  moreover
  have "get_vendor DEFAULT_CONFIG ''fundamental_data'' (Some ''get_cashflow'') None = ''akshare''"
    using get_vendor_precedence [OF refl refl refl refl,
        of DEFAULT_CONFIG "''fundamental_data''" "Some ''get_cashflow''" None]
    by (simp add: ev)
  moreover
  have "get_vendor DEFAULT_CONFIG ''dividend_data'' (Some ''get_dividend_data'') None = ''default''"
    using get_vendor_precedence [OF refl refl refl refl,
        of DEFAULT_CONFIG "''dividend_data''" "Some ''get_dividend_data''" None]
    by (simp add: ev)
  ultimately show ?thesis by blast
qed

text \<open>
  The claim as stated fails where the market has an entry that names no provider: the
  specified resolution stops at the market layer with nothing, \<open>get_vendor\<close> goes on to
  the tool-level entry.
\<close>

theorem get_vendor_blank_market_entry:
  "is_market_scoped blank_market_config (Some ''AAPL'')
   \<and> get_vendor blank_market_config ''core_stock_apis'' (Some ''get_stock_data'') (Some ''AAPL'')
       = ''yfinance''
   \<and> resolve_providers_as_specified blank_market_config ''core_stock_apis'' ''get_stock_data''
       (Some ''AAPL'') = []"
  by code_simp

section \<open>Fallback plan\<close>

lemma foldl_add_missing:
  "distinct ks \<Longrightarrow> foldl add_missing ps ks = ps @ filter (\<lambda>v. v \<notin> set ps) ks"
proof (induction ks arbitrary: ps)
  case Nil
  then show ?case by simp
next
  case (Cons k ks)
  then have d: "distinct ks" and k: "k \<notin> set ks" by simp_all
  show ?case
  proof (cases "k \<in> set ps")
    case True
    then show ?thesis
      using Cons.IH [OF d, of ps] by (simp add: add_missing_def)
  next
    case False
    have "filter (\<lambda>v. v \<notin> set (ps @ [k])) ks = filter (\<lambda>v. v \<notin> set ps) ks"
      using k by (intro filter_cong) auto
    then show ?thesis
      using False Cons.IH [OF d, of "ps @ [k]"] by (simp add: add_missing_def)
  qed
qed

lemma build_fallback_vendors_unscoped:
  assumes "\<not> is_market_scoped cfg symbol" "distinct (map fst method_impls)"
  shows "build_fallback_vendors cfg symbol primary method_impls
           = primary @ filter (\<lambda>v. v \<notin> set primary) (map fst method_impls)"
  using assms by (simp add: build_fallback_vendors_def foldl_add_missing)

lemma build_fallback_vendors_scoped:
  assumes "is_market_scoped cfg symbol"
  shows "build_fallback_vendors cfg symbol primary method_impls = primary"
  using assms by (simp add: build_fallback_vendors_def)

lemma fallback_plan_registered:
  assumes "get_category_for_method method = Inr category"
    and "map_of VENDOR_METHODS method = Some method_impls"
  shows "fallback_plan cfg method args kwargs =
           Inr \<lparr> plan_primary =
                   split_vendors (get_vendor cfg category (Some method) (extract_symbol args kwargs)),
                 plan_fallback =
                   build_fallback_vendors cfg (extract_symbol args kwargs)
                     (split_vendors (get_vendor cfg category (Some method) (extract_symbol args kwargs)))
                     method_impls,
                 plan_impls = method_impls \<rparr>"
  using assms by (simp add: fallback_plan_def Let_def)

text \<open>
  The fallback plan of a method that has a category and a catalog entry. \<open>primary\<close> is
  the list of configured providers that \<open>get_vendor\<close> resolves, split at the commas and
  stripped. When a non-empty symbol is given and its market has an entry in
  \<^verbatim>\<open>market_vendors\<close>, the plan is \<open>primary\<close>; otherwise it is \<open>primary\<close> followed by the
  providers of the catalog for the method that are not in \<open>primary\<close>, in catalog order.
\<close>

lemma fallback_plan_by_scope:
  assumes "get_category_for_method method = Inr category"
    and "map_of VENDOR_METHODS method = Some method_impls"
    and "symbol = extract_symbol args kwargs"
    and "primary = split_vendors (get_vendor cfg category (Some method) symbol)"
  shows "fallback_plan cfg method args kwargs =
           Inr \<lparr> plan_primary = primary,
                 plan_fallback =
                   (if is_market_scoped cfg symbol then primary
                    else primary @ filter (\<lambda>v. v \<notin> set primary) (map fst method_impls)),
                 plan_impls = method_impls \<rparr>"
proof (cases "is_market_scoped cfg symbol")
  case True
  then show ?thesis
    using fallback_plan_registered [OF assms(1,2), of cfg args kwargs] assms(3,4)
      build_fallback_vendors_scoped [of cfg symbol primary method_impls]
    by simp
next
  case False
  then show ?thesis
    using fallback_plan_registered [OF assms(1,2), of cfg args kwargs] assms(3,4)
      build_fallback_vendors_unscoped [OF _ catalog_vendors_distinct [OF assms(2)], of cfg symbol primary]
    by simp
qed

lemma category_get_stock_data: "get_category_for_method ''get_stock_data'' = Inr ''core_stock_apis''"
  by code_simp

lemma catalog_get_stock_data:
  "map_of VENDOR_METHODS ''get_stock_data'' =
     Some [(''alpha_vantage'', Single ''get_alpha_vantage_stock''),
           (''yfinance'', Single ''get_YFin_data_online''),
           (''akshare'', Single ''get_akshare_stock_data''),
           (''baostock'', Single ''get_baostock_stock_data''),
           (''local'', Single ''get_YFin_data'')]"
  by (simp add: VENDOR_METHODS_def)

lemma fallback_plan_default_examples:
  "map_sum id plan_fallback (fallback_plan DEFAULT_CONFIG ''get_stock_data'' [''^GSPC''] Map.empty)
     = Inr [''akshare'', ''alpha_vantage'', ''yfinance'', ''baostock'', ''local'']
   \<and> map_sum id plan_fallback (fallback_plan DEFAULT_CONFIG ''get_stock_data'' [''AAPL''] Map.empty)
     = Inr [''akshare'', ''yfinance'', ''alpha_vantage'']"
proof -
  have u: "\<not> is_market_scoped DEFAULT_CONFIG (extract_symbol [''^GSPC''] Map.empty)"
    by code_simp
  have pu: "split_vendors (get_vendor DEFAULT_CONFIG ''core_stock_apis'' (Some ''get_stock_data'')
              (extract_symbol [''^GSPC''] Map.empty)) = [''akshare'']"
    by code_simp
  have s: "is_market_scoped DEFAULT_CONFIG (extract_symbol [''AAPL''] Map.empty)"
    by code_simp
  have ps: "split_vendors (get_vendor DEFAULT_CONFIG ''core_stock_apis'' (Some ''get_stock_data'')
              (extract_symbol [''AAPL''] Map.empty)) = [''akshare'', ''yfinance'', ''alpha_vantage'']"
    by code_simp
  have "map_sum id plan_fallback (fallback_plan DEFAULT_CONFIG ''get_stock_data'' [''^GSPC''] Map.empty)
          = Inr [''akshare'', ''alpha_vantage'', ''yfinance'', ''baostock'', ''local'']"
    using fallback_plan_by_scope [OF category_get_stock_data catalog_get_stock_data refl refl,
        of DEFAULT_CONFIG "[''^GSPC'']" Map.empty] u
    by (simp add: pu)
  moreover
  have "map_sum id plan_fallback (fallback_plan DEFAULT_CONFIG ''get_stock_data'' [''AAPL''] Map.empty)
          = Inr [''akshare'', ''yfinance'', ''alpha_vantage'']"
    using fallback_plan_by_scope [OF category_get_stock_data catalog_get_stock_data refl refl,
        of DEFAULT_CONFIG "[''AAPL'']" Map.empty] s
    by (simp add: ps)
  ultimately show ?thesis by blast
qed

text \<open>
  Claim C1, at a configuration whose entry for the market of the symbol names no
  provider. \<open>get_vendor\<close> finds nothing at the market level and resolves the providers
  from the tool-level layer, so the configuration layer used is the tool level, for
  which the claim, and the comments of \<^verbatim>\<open>route_to_vendor\<close> ("For tool-level or
  category-level configs, add all available vendors as additional fallback"), promise the
  providers of the catalog as additional fallback. \<^verbatim>\<open>route_to_vendor\<close> tests only
  whether the market has an entry: the plan is the one configured provider, and none of
  the four other providers that the catalog registers for the method is appended.
\<close>

theorem fallback_plan_blank_market_entry:
  "market_level_vendors blank_market_config (extract_symbol [''AAPL''] Map.empty) = None
   \<and> tool_level_vendors blank_market_config (Some ''get_stock_data'') = Some ''yfinance''
   \<and> map_sum id plan_primary (fallback_plan blank_market_config ''get_stock_data'' [''AAPL''] Map.empty)
       = Inr [''yfinance'']
   \<and> map_sum id plan_fallback (fallback_plan blank_market_config ''get_stock_data'' [''AAPL''] Map.empty)
       = Inr [''yfinance'']
   \<and> map_sum id (map fst \<circ> plan_impls)
       (fallback_plan blank_market_config ''get_stock_data'' [''AAPL''] Map.empty)
       = Inr [''alpha_vantage'', ''yfinance'', ''akshare'', ''baostock'', ''local'']"
  by code_simp

section \<open>The counters of the quality gate\<close>

lemma py_split_nonempty: "py_split d s \<noteq> []"
  by (induction s) (auto split: list.splits)

lemma valid_line_is_date_line: "is_valid_line fl line \<Longrightarrow> is_date_line line"
  by (simp add: is_valid_line_def)

lemma scan_line_counts:
  "scan_line fl (v, d) line =
     (if is_valid_line fl line then (v + 1, d + 1)
      else if is_date_line line then (v, d + 1)
      else (v, d))"
  using py_split_nonempty [of "CHR '':''" "py_strip line"]
  by (auto simp: scan_line_def is_valid_line_def is_date_line_def line_date_part_def
        line_value_part_def Let_def split: list.splits)

lemma foldl_scan_line:
  "foldl (scan_line fl) (v, d) lines =
     (v + length (filter (is_valid_line fl) lines), d + length (filter is_date_line lines))"
  by (induction lines arbitrary: v d) (auto simp: scan_line_counts valid_line_is_date_line)

lemma ratio_below_threshold_nat:
  assumes "0 < d"
  shows "ratio_below_threshold v d = (10 * v < 3 * d)"
proof -
  have "(real v / real d < 3 / 10) = (10 * real v < 3 * real d)"
    using assms by (simp add: field_simps)
  also have "\<dots> = (real (10 * v) < real (3 * d))"
    by simp
  also have "\<dots> = (10 * v < 3 * d)"
    by (rule of_nat_less_iff)
  finally show ?thesis
    by (simp add: ratio_below_threshold_def)
qed

lemma no_date_line_in_empty_text: "date_lines [] = 0"
  by code_simp

lemma gate_by_counts:
  "is_indicator_result_invalid fl text =
     (date_lines text = 0
      \<or> real (valid_lines fl text) / real (date_lines text) < 3 / 10)"
proof (cases "text = []")
  case True
  then show ?thesis
    by (simp add: is_indicator_result_invalid_def no_date_line_in_empty_text)
next
  case False
  then show ?thesis
    by (simp add: is_indicator_result_invalid_def Let_def foldl_scan_line date_lines_def
          valid_lines_def ratio_below_threshold_def)
qed

text \<open>
  Whether \<^verbatim>\<open>float\<close> accepts the value matters only on a date line whose value is empty
  and so contains no keyword: the number of valid lines lies between the numbers for a
  \<^verbatim>\<open>float\<close> that rejects and one that accepts every string.
\<close>

lemma length_filter_mono:
  "(\<And>x. P x \<Longrightarrow> Q x) \<Longrightarrow> length (filter P xs) \<le> length (filter Q xs)"
  by (induction xs) auto

lemma valid_lines_bounds:
  "valid_lines (\<lambda>_. False) text \<le> valid_lines fl text
   \<and> valid_lines fl text \<le> valid_lines (\<lambda>_. True) text"
  unfolding valid_lines_def
  by (intro conjI length_filter_mono) (auto simp: is_valid_line_def)

lemma holiday_report_lines: "py_split (CHR 0x0A) holiday_report = holiday_lines"
  by code_simp

lemma partial_report_lines: "py_split (CHR 0x0A) partial_report = partial_lines"
  by code_simp

lemma holiday_report_date_lines: "date_lines holiday_report = 10"
proof -
  have "length (filter is_date_line holiday_lines) = 10"
    by code_simp
  then show ?thesis
    by (simp add: date_lines_def holiday_report_lines)
qed

lemma holiday_report_valid_lines: "valid_lines fl holiday_report = 2"
proof -
  have "length (filter (is_valid_line (\<lambda>_. False)) holiday_lines) = 2"
    by code_simp
  moreover have "length (filter (is_valid_line (\<lambda>_. True)) holiday_lines) = 2"
    by code_simp
  ultimately show ?thesis
    using valid_lines_bounds [of holiday_report fl]
    by (simp add: valid_lines_def holiday_report_lines)
qed

lemma partial_report_date_lines: "date_lines partial_report = 10"
proof -
  have "length (filter is_date_line partial_lines) = 10"
    by code_simp
  then show ?thesis
    by (simp add: date_lines_def partial_report_lines)
qed

lemma partial_report_valid_lines: "valid_lines fl partial_report = 4"
proof -
  have "length (filter (is_valid_line (\<lambda>_. False)) partial_lines) = 4"
    by code_simp
  moreover have "length (filter (is_valid_line (\<lambda>_. True)) partial_lines) = 4"
    by code_simp
  ultimately show ?thesis
    using valid_lines_bounds [of partial_report fl]
    by (simp add: valid_lines_def partial_report_lines)
qed

lemma holiday_report_rejected: "is_indicator_result_invalid fl holiday_report"
  by (simp add: gate_by_counts holiday_report_date_lines holiday_report_valid_lines)

lemma partial_report_accepted: "\<not> is_indicator_result_invalid fl partial_report"
  by (simp add: gate_by_counts partial_report_date_lines partial_report_valid_lines)

section \<open>The executor loop\<close>

lemma run_vendor_methods_events:
  "\<exists>new. snd (run_vendor_methods call vendor fs acc) = snd acc @ new
         \<and> length new = length fs \<and> (\<forall>ev \<in> set new. fst ev = vendor)"
proof (induction fs arbitrary: acc)
  case Nil
  then show ?case by simp
next
  case (Cons f fs)
  show ?case
  proof (cases "call (length (snd acc)) f")
    case (Returns r)
    from Cons.IH [of "(fst acc @ [r], snd acc @ [(vendor, f, Succeeded)])"]
    obtain new where "snd (run_vendor_methods call vendor fs (fst acc @ [r], snd acc @ [(vendor, f, Succeeded)]))
        = (snd acc @ [(vendor, f, Succeeded)]) @ new" "length new = length fs" "\<forall>ev \<in> set new. fst ev = vendor"
      by auto
    then show ?thesis
      using Returns by (intro exI [of _ "(vendor, f, Succeeded) # new"]) simp
  next
    case (Raises e)
    from Cons.IH [of "(fst acc, snd acc @ [(vendor, f, classify_exception e)])"]
    obtain new where "snd (run_vendor_methods call vendor fs (fst acc, snd acc @ [(vendor, f, classify_exception e)]))
        = (snd acc @ [(vendor, f, classify_exception e)]) @ new" "length new = length fs" "\<forall>ev \<in> set new. fst ev = vendor"
      by auto
    then show ?thesis
      using Raises by (intro exI [of _ "(vendor, f, classify_exception e) # new"]) simp
  qed
qed

lemma attempt_vendor_attempted:
  "attempted (fst (attempt_vendor rt method primary vendor vi st)) = attempted st @ [vendor]"
  by (simp add: attempt_vendor_def Let_def)

lemma attempt_vendor_count:
  "vendor_attempt_count (fst (attempt_vendor rt method primary vendor vi st))
     = vendor_attempt_count st + 1"
  by (simp add: attempt_vendor_def Let_def)

lemma attempt_vendor_stop:
  assumes "snd (attempt_vendor rt method primary vendor vi st)"
  shows "stop_after_first_success primary method
         \<and> successful_vendor (fst (attempt_vendor rt method primary vendor vi st)) = Some vendor
         \<and> results (fst (attempt_vendor rt method primary vendor vi st)) \<noteq> []"
  using assms by (auto simp: attempt_vendor_def Let_def split: if_splits)

lemma attempt_vendor_success_inv:
  assumes "(results st = []) = (successful_vendor st = None)"
  shows "(results (fst (attempt_vendor rt method primary vendor vi st)) = [])
           = (successful_vendor (fst (attempt_vendor rt method primary vendor vi st)) = None)"
  using assms by (auto simp: attempt_vendor_def Let_def)

lemma attempt_vendor_events:
  "\<exists>new. events (fst (attempt_vendor rt method primary vendor vi st)) = events st @ new
         \<and> (\<forall>ev \<in> set new. fst ev = vendor)"
proof -
  from run_vendor_methods_events
    [of "rt_call rt" vendor "vendor_methods_of vi" "([], events st)"]
  obtain new where
    "snd (run_vendor_methods (rt_call rt) vendor (vendor_methods_of vi) ([], events st))
       = events st @ new" "\<forall>ev \<in> set new. fst ev = vendor"
    by auto
  then show ?thesis
    by (auto simp: attempt_vendor_def Let_def)
qed

lemma attempt_vendor_no_stop:
  assumes "\<not> snd (attempt_vendor rt method primary vendor vi st)"
    and "stop_after_first_success primary method"
  shows "successful_vendor (fst (attempt_vendor rt method primary vendor vi st)) = successful_vendor st
         \<and> results (fst (attempt_vendor rt method primary vendor vi st)) = results st"
  using assms by (auto simp: attempt_vendor_def Let_def split: if_splits)

lemma vendor_loop_registered_step:
  assumes "map_of impls vendor = Some vi"
  shows "vendor_loop rt method impls primary (vendor # rest) st =
           (if snd (attempt_vendor rt method primary vendor vi st)
            then fst (attempt_vendor rt method primary vendor vi st)
            else vendor_loop rt method impls primary rest
                   (fst (attempt_vendor rt method primary vendor vi st)))"
  using assms by (simp add: case_prod_beta)

lemma vendor_loop_skip_step:
  assumes "map_of impls vendor = None"
  shows "vendor_loop rt method impls primary (vendor # rest) st
           = vendor_loop rt method impls primary rest st"
  using assms by simp

lemma vendor_loop_attempted:
  "\<exists>pre suf. attempted (vendor_loop rt method impls primary plan st) = attempted st @ pre
             \<and> filter (\<lambda>v. map_of impls v \<noteq> None) plan = pre @ suf"
proof (induction plan arbitrary: st)
  case Nil
  then show ?case by simp
next
  case (Cons vendor rest)
  show ?case
  proof (cases "map_of impls vendor")
    case None
    with Cons.IH [of st] show ?thesis
      by (simp add: vendor_loop_skip_step)
  next
    case (Some vi)
    let ?a = "attempt_vendor rt method primary vendor vi st"
    show ?thesis
    proof (cases "snd ?a")
      case True
      then have "attempted (vendor_loop rt method impls primary (vendor # rest) st)
                   = attempted st @ [vendor]"
        unfolding vendor_loop_registered_step [OF Some]
        by (simp add: attempt_vendor_attempted)
      moreover have "filter (\<lambda>v. map_of impls v \<noteq> None) (vendor # rest)
                       = [vendor] @ filter (\<lambda>v. map_of impls v \<noteq> None) rest"
        using Some by simp
      ultimately show ?thesis by blast
    next
      case False
      from Cons.IH [of "fst ?a"] obtain pre suf where
        p: "attempted (vendor_loop rt method impls primary rest (fst ?a)) = attempted (fst ?a) @ pre"
           "filter (\<lambda>v. map_of impls v \<noteq> None) rest = pre @ suf"
        by blast
      have "attempted (vendor_loop rt method impls primary (vendor # rest) st)
              = attempted st @ (vendor # pre)"
        unfolding vendor_loop_registered_step [OF Some]
        using False p(1) by (simp add: attempt_vendor_attempted)
      moreover have "filter (\<lambda>v. map_of impls v \<noteq> None) (vendor # rest) = (vendor # pre) @ suf"
        using Some p(2) by simp
      ultimately show ?thesis by blast
    qed
  qed
qed

lemma vendor_loop_count:
  "vendor_attempt_count (vendor_loop rt method impls primary plan st) + length (attempted st)
     = vendor_attempt_count st + length (attempted (vendor_loop rt method impls primary plan st))"
proof (induction plan arbitrary: st)
  case Nil
  then show ?case by simp
next
  case (Cons vendor rest)
  show ?case
  proof (cases "map_of impls vendor")
    case None
    with Cons.IH [of st] show ?thesis
      by (simp add: vendor_loop_skip_step)
  next
    case (Some vi)
    let ?a = "attempt_vendor rt method primary vendor vi st"
    show ?thesis
      using Cons.IH [of "fst ?a"]
      unfolding vendor_loop_registered_step [OF Some]
      by (cases "snd ?a") (simp_all add: attempt_vendor_attempted attempt_vendor_count)
  qed
qed

lemma vendor_loop_success_inv:
  assumes "(results st = []) = (successful_vendor st = None)"
  shows "(results (vendor_loop rt method impls primary plan st) = [])
           = (successful_vendor (vendor_loop rt method impls primary plan st) = None)"
  using assms
proof (induction plan arbitrary: st)
  case Nil
  then show ?case by simp
next
  case (Cons vendor rest)
  show ?case
  proof (cases "map_of impls vendor")
    case None
    with Cons show ?thesis
      by (simp add: vendor_loop_skip_step)
  next
    case (Some vi)
    let ?a = "attempt_vendor rt method primary vendor vi st"
    have inv: "(results (fst ?a) = []) = (successful_vendor (fst ?a) = None)"
      by (rule attempt_vendor_success_inv [OF Cons.prems])
    show ?thesis
      using inv Cons.IH [OF inv]
      unfolding vendor_loop_registered_step [OF Some]
      by (cases "snd ?a") simp_all
  qed
qed

lemma vendor_loop_events_registered:
  assumes "\<forall>ev \<in> set (events st). map_of impls (fst ev) \<noteq> None"
  shows "\<forall>ev \<in> set (events (vendor_loop rt method impls primary plan st)).
           map_of impls (fst ev) \<noteq> None"
  using assms
proof (induction plan arbitrary: st)
  case Nil
  then show ?case by simp
next
  case (Cons vendor rest)
  show ?case
  proof (cases "map_of impls vendor")
    case None
    with Cons show ?thesis
      by (simp add: vendor_loop_skip_step)
  next
    case (Some vi)
    let ?a = "attempt_vendor rt method primary vendor vi st"
    from attempt_vendor_events [of rt "method" primary vendor vi st] obtain new where
      "events (fst ?a) = events st @ new" "\<forall>ev \<in> set new. fst ev = vendor"
      by blast
    then have reg: "\<forall>ev \<in> set (events (fst ?a)). map_of impls (fst ev) \<noteq> None"
      using Cons.prems Some by auto
    show ?thesis
      using reg Cons.IH [OF reg]
      unfolding vendor_loop_registered_step [OF Some]
      by (cases "snd ?a") simp_all
  qed
qed

lemma vendor_loop_stops_at_first_success:
  assumes "stop_after_first_success primary method"
    and "successful_vendor st = None"
    and "successful_vendor (vendor_loop rt method impls primary plan st) = Some v"
  shows "attempted (vendor_loop rt method impls primary plan st) \<noteq> []
         \<and> last (attempted (vendor_loop rt method impls primary plan st)) = v"
  using assms(2,3)
proof (induction plan arbitrary: st)
  case Nil
  then show ?case by simp
next
  case (Cons vendor rest)
  show ?case
  proof (cases "map_of impls vendor")
    case None
    with Cons show ?thesis
      by (simp add: vendor_loop_skip_step)
  next
    case (Some vi)
    let ?a = "attempt_vendor rt method primary vendor vi st"
    show ?thesis
    proof (cases "snd ?a")
      case True
      then have f: "vendor_loop rt method impls primary (vendor # rest) st = fst ?a"
        unfolding vendor_loop_registered_step [OF Some] by simp
      from attempt_vendor_stop [OF True] Cons.prems(2) f have "v = vendor"
        by simp
      then show ?thesis
        using f by (simp add: attempt_vendor_attempted)
    next
      case False
      then have f: "vendor_loop rt method impls primary (vendor # rest) st
                      = vendor_loop rt method impls primary rest (fst ?a)"
        unfolding vendor_loop_registered_step [OF Some] by simp
      from attempt_vendor_no_stop [OF False assms(1)] Cons.prems(1)
      have "successful_vendor (fst ?a) = None" by simp
      from Cons.IH [OF this] Cons.prems(2) f show ?thesis
        by simp
    qed
  qed
qed

lemma invocation_of_event: "invocation (vendor, f, r) = (vendor, f)"
  by (simp add: invocation_def)

lemma initial_state_trace: "attempted initial_state = [] \<and> events initial_state = []"
  by (simp add: initial_state_def)

lemma run_vendor_methods_invocations:
  "map invocation (snd (run_vendor_methods call vendor fs acc))
     = map invocation (snd acc) @ map (Pair vendor) fs"
proof (induction fs arbitrary: acc)
  case Nil
  then show ?case by simp
next
  case (Cons f fs)
  show ?case
    by (cases "call (length (snd acc)) f") (simp_all add: Cons.IH invocation_of_event)
qed

lemma attempt_vendor_invocations:
  assumes "map_of impls vendor = Some vi"
  shows "map invocation (events (fst (attempt_vendor rt method primary vendor vi st)))
           = map invocation (events st) @ invocations_of impls vendor"
  using run_vendor_methods_invocations
    [of "rt_call rt" vendor "vendor_methods_of vi" "([], events st)"] assms
  by (simp add: attempt_vendor_def Let_def invocations_of_def)

text \<open>
  What the loop has done when it ends: it has gone through an initial part \<open>pre\<close> of the
  plan, attempted the providers of \<open>pre\<close> that the catalog has for the method and no
  other, and invoked every adapter of each of them. It has gone through the whole plan
  unless it stopped at the last provider of \<open>pre\<close>, which it accepted.
\<close>

lemma vendor_loop_trace:
  "\<exists>pre suf. plan = pre @ suf
     \<and> attempted (vendor_loop rt method impls primary plan st)
         = attempted st @ filter (\<lambda>v. map_of impls v \<noteq> None) pre
     \<and> map invocation (events (vendor_loop rt method impls primary plan st))
         = map invocation (events st) @ concat (map (invocations_of impls) pre)
     \<and> (suf = []
        \<or> (stop_after_first_success primary method \<and> pre \<noteq> []
            \<and> map_of impls (last pre) \<noteq> None
            \<and> successful_vendor (vendor_loop rt method impls primary plan st) = Some (last pre)))"
proof (induction plan arbitrary: st)
  case Nil
  then show ?case by simp
next
  case (Cons vendor rest)
  show ?case
  proof (cases "map_of impls vendor")
    case None
    from Cons.IH [of st] obtain pre suf where
      p: "rest = pre @ suf"
         "attempted (vendor_loop rt method impls primary rest st)
            = attempted st @ filter (\<lambda>v. map_of impls v \<noteq> None) pre"
         "map invocation (events (vendor_loop rt method impls primary rest st))
            = map invocation (events st) @ concat (map (invocations_of impls) pre)"
         "suf = []
          \<or> (stop_after_first_success primary method \<and> pre \<noteq> []
              \<and> map_of impls (last pre) \<noteq> None
              \<and> successful_vendor (vendor_loop rt method impls primary rest st) = Some (last pre))"
      by blast
    have l: "vendor_loop rt method impls primary (vendor # rest) st
               = vendor_loop rt method impls primary rest st"
      by (rule vendor_loop_skip_step [OF None])
    have "vendor # rest = (vendor # pre) @ suf"
      using p(1) by simp
    moreover have "attempted (vendor_loop rt method impls primary (vendor # rest) st)
                     = attempted st @ filter (\<lambda>v. map_of impls v \<noteq> None) (vendor # pre)"
      unfolding l using p(2) None by simp
    moreover have "map invocation (events (vendor_loop rt method impls primary (vendor # rest) st))
                     = map invocation (events st) @ concat (map (invocations_of impls) (vendor # pre))"
      unfolding l using p(3) None by (simp add: invocations_of_def)
    moreover have "suf = []
          \<or> (stop_after_first_success primary method \<and> vendor # pre \<noteq> []
              \<and> map_of impls (last (vendor # pre)) \<noteq> None
              \<and> successful_vendor (vendor_loop rt method impls primary (vendor # rest) st)
                   = Some (last (vendor # pre)))"
      unfolding l using p(4) by auto
    ultimately show ?thesis by blast
  next
    case (Some vi)
    let ?a = "attempt_vendor rt method primary vendor vi st"
    show ?thesis
    proof (cases "snd ?a")
      case True
      have l: "vendor_loop rt method impls primary (vendor # rest) st = fst ?a"
        unfolding vendor_loop_registered_step [OF Some] using True by simp
      have "vendor # rest = [vendor] @ rest"
        by simp
      moreover have "attempted (vendor_loop rt method impls primary (vendor # rest) st)
                       = attempted st @ filter (\<lambda>v. map_of impls v \<noteq> None) [vendor]"
        unfolding l using Some by (simp add: attempt_vendor_attempted)
      moreover have "map invocation (events (vendor_loop rt method impls primary (vendor # rest) st))
                       = map invocation (events st) @ concat (map (invocations_of impls) [vendor])"
        unfolding l by (simp add: attempt_vendor_invocations [OF Some])
      moreover have "rest = []
          \<or> (stop_after_first_success primary method \<and> [vendor] \<noteq> []
              \<and> map_of impls (last [vendor]) \<noteq> None
              \<and> successful_vendor (vendor_loop rt method impls primary (vendor # rest) st)
                   = Some (last [vendor]))"
        unfolding l using attempt_vendor_stop [OF True] Some by simp
      ultimately show ?thesis by blast
    next
      case False
      from Cons.IH [of "fst ?a"] obtain pre suf where
        p: "rest = pre @ suf"
           "attempted (vendor_loop rt method impls primary rest (fst ?a))
              = attempted (fst ?a) @ filter (\<lambda>v. map_of impls v \<noteq> None) pre"
           "map invocation (events (vendor_loop rt method impls primary rest (fst ?a)))
              = map invocation (events (fst ?a)) @ concat (map (invocations_of impls) pre)"
           "suf = []
            \<or> (stop_after_first_success primary method \<and> pre \<noteq> []
                \<and> map_of impls (last pre) \<noteq> None
                \<and> successful_vendor (vendor_loop rt method impls primary rest (fst ?a))
                     = Some (last pre))"
        by blast
      have l: "vendor_loop rt method impls primary (vendor # rest) st
                 = vendor_loop rt method impls primary rest (fst ?a)"
        unfolding vendor_loop_registered_step [OF Some] using False by simp
      have "vendor # rest = (vendor # pre) @ suf"
        using p(1) by simp
      moreover have "attempted (vendor_loop rt method impls primary (vendor # rest) st)
                       = attempted st @ filter (\<lambda>v. map_of impls v \<noteq> None) (vendor # pre)"
        unfolding l using p(2) Some by (simp add: attempt_vendor_attempted)
      moreover have "map invocation (events (vendor_loop rt method impls primary (vendor # rest) st))
                       = map invocation (events st) @ concat (map (invocations_of impls) (vendor # pre))"
        unfolding l using p(3) by (simp add: attempt_vendor_invocations [OF Some])
      moreover have "suf = []
            \<or> (stop_after_first_success primary method \<and> vendor # pre \<noteq> []
                \<and> map_of impls (last (vendor # pre)) \<noteq> None
                \<and> successful_vendor (vendor_loop rt method impls primary (vendor # rest) st)
                     = Some (last (vendor # pre)))"
        unfolding l using p(4) by auto
      ultimately show ?thesis by blast
    qed
  qed
qed

lemma py_contains_between: "py_contains k (pre @ k @ post)"
proof (induction pre)
  case Nil
  show ?case
  proof (cases "k @ post")
    case Nil
    then show ?thesis by simp
  next
    case (Cons c cs)
    have "py_startswith (k @ post) k"
      by (simp add: py_startswith_def)
    then show ?thesis
      using Cons by simp
  qed
next
  case (Cons c pre)
  then show ?case by simp
qed

lemma route_to_vendor_registered:
  assumes "fallback_plan (rt_config rt) method args kwargs = Inr plan"
  shows "route_to_vendor rt method args kwargs =
           (final_result rt method
              (vendor_loop rt method (plan_impls plan) (plan_primary plan) (plan_fallback plan)
                 initial_state),
            vendor_loop rt method (plan_impls plan) (plan_primary plan) (plan_fallback plan)
              initial_state)"
  using assms by (simp add: route_to_vendor_def Let_def)

section \<open>Failure handling of the executor\<close>

text \<open>
  Claim C2. For a method that the catalog lists, whatever the adapters do (\<open>rt\<close> is
  arbitrary, so each invocation may return or raise an exception of any class and
  message), the only exception that leaves \<open>route_to_vendor\<close> is the \<^verbatim>\<open>RuntimeError\<close>
  raised at its end, whose text depends on the method alone; it is raised if and only if
  \<^verbatim>\<open>results\<close> is empty, that is, if and only if no provider was accepted.
\<close>

theorem route_to_vendor_raises_only_on_exhaustion:
  assumes "method \<in> set registered_methods"
  shows "(\<forall>e. fst (route_to_vendor rt method args kwargs) = Inl e \<longrightarrow>
            e = Exc RuntimeError (''All vendor implementations failed for method '' @ quoted method))
         \<and> ((\<exists>e. fst (route_to_vendor rt method args kwargs) = Inl e)
              = (results (snd (route_to_vendor rt method args kwargs)) = []))
         \<and> ((results (snd (route_to_vendor rt method args kwargs)) = [])
              = (successful_vendor (snd (route_to_vendor rt method args kwargs)) = None))"
proof -
  from registered_has_plan [OF assms, of "rt_config rt" args kwargs] obtain plan
    where p: "fallback_plan (rt_config rt) method args kwargs = Inr plan"
    by blast
  let ?st = "vendor_loop rt method (plan_impls plan) (plan_primary plan) (plan_fallback plan)
               (initial_state :: 'a exec_state)"
  have inv: "(results ?st = []) = (successful_vendor ?st = None)"
    by (rule vendor_loop_success_inv) (simp add: initial_state_def)
  show ?thesis
    using inv unfolding route_to_vendor_registered [OF p]
    by (auto simp: final_result_def)
qed

theorem raises_only_on_exhaustion_witness:
  "''get_stock_data'' \<in> set registered_methods
   \<and> fst (route_to_vendor failing_runtime ''get_stock_data'' [''AAPL''] Map.empty)
       = Inl (Exc RuntimeError
               (''All vendor implementations failed for method '' @ quoted ''get_stock_data''))
   \<and> events (snd (route_to_vendor failing_runtime ''get_stock_data'' [''AAPL''] Map.empty))
       = [(''akshare'', ''get_akshare_stock_data'', NetworkFailed),
          (''yfinance'', ''get_YFin_data_online'', NetworkFailed),
          (''alpha_vantage'', ''get_alpha_vantage_stock'', NetworkFailed)]"
proof -
  have h: "''get_stock_data'' \<in> set registered_methods"
    by (simp add: registered_methods_list)
  have r: "results (snd (route_to_vendor failing_runtime ''get_stock_data'' [''AAPL''] Map.empty)) = []"
    by code_simp
  have ev: "events (snd (route_to_vendor failing_runtime ''get_stock_data'' [''AAPL''] Map.empty))
       = [(''akshare'', ''get_akshare_stock_data'', NetworkFailed),
          (''yfinance'', ''get_YFin_data_online'', NetworkFailed),
          (''alpha_vantage'', ''get_alpha_vantage_stock'', NetworkFailed)]"
    by code_simp
  from route_to_vendor_raises_only_on_exhaustion
    [OF h, of failing_runtime "[''AAPL'']" Map.empty] r
  have "fst (route_to_vendor failing_runtime ''get_stock_data'' [''AAPL''] Map.empty)
       = Inl (Exc RuntimeError
               (''All vendor implementations failed for method '' @ quoted ''get_stock_data''))"
    by auto
  with h ev show ?thesis by simp
qed

text \<open>
  Claim C7, as the code has it. When no value was accepted, the exception raised is a
  \<^verbatim>\<open>RuntimeError\<close> whose message contains the name of the requested method. The
  message is built from the method alone: the number of attempts is not part of the
  exception.
\<close>

theorem exhaustion_error_names_method:
  assumes "method \<in> set registered_methods"
    and "results (snd (route_to_vendor rt method args kwargs)) = []"
  shows "fst (route_to_vendor rt method args kwargs)
           = Inl (Exc RuntimeError (''All vendor implementations failed for method '' @ quoted method))
         \<and> py_contains method (''All vendor implementations failed for method '' @ quoted method)"
proof -
  from registered_has_plan [OF assms(1), of "rt_config rt" args kwargs] obtain plan
    where p: "fallback_plan (rt_config rt) method args kwargs = Inr plan"
    by blast
  have "py_contains method
          ((''All vendor implementations failed for method '' @ [CHR 0x27]) @ method @ [CHR 0x27])"
    by (rule py_contains_between)
  then have c: "py_contains method (''All vendor implementations failed for method '' @ quoted method)"
    by (simp add: quoted_def)
  show ?thesis
    using assms(2) c unfolding route_to_vendor_registered [OF p]
    by (simp add: final_result_def)
qed

theorem exhaustion_error_witness:
  "fst (route_to_vendor failing_runtime ''get_indicators'' [''600000''] Map.empty)
     = Inl (Exc RuntimeError (''All vendor implementations failed for method '' @ quoted ''get_indicators''))
   \<and> py_contains ''get_indicators''
        (''All vendor implementations failed for method '' @ quoted ''get_indicators'')"
proof -
  have h: "''get_indicators'' \<in> set registered_methods"
    by (simp add: registered_methods_list)
  have r: "results (snd (route_to_vendor failing_runtime ''get_indicators'' [''600000''] Map.empty)) = []"
    by code_simp
  from exhaustion_error_names_method [OF h r] show ?thesis .
qed

text \<open>
  The claim as stated fails: two calls for the same method that exhaust three and five
  providers raise the same exception.
\<close>

theorem exhaustion_error_without_attempt_count:
  "vendor_attempt_count (snd (route_to_vendor failing_runtime ''get_stock_data'' [''AAPL''] Map.empty)) = 3
   \<and> vendor_attempt_count (snd (route_to_vendor failing_runtime ''get_stock_data'' [''^GSPC''] Map.empty)) = 5
   \<and> fst (route_to_vendor failing_runtime ''get_stock_data'' [''AAPL''] Map.empty)
       = fst (route_to_vendor failing_runtime ''get_stock_data'' [''^GSPC''] Map.empty)"
  by code_simp

section \<open>Which providers are skipped\<close>

text \<open>
  Claim C8, as the code has it. \<open>out\<close> and \<open>st\<close> are the result and the final state of
  a call for a method with a plan. The loop goes through an initial part \<open>reached\<close> of
  the plan. Of the providers it reaches, it skips, without invoking an adapter, exactly
  those that the catalog does not register for the method: the providers attempted are
  the registered providers of \<open>reached\<close>, in order, and the adapters invoked are all the
  adapters of each of them and no other. The part \<open>unreached\<close> is empty unless the loop
  stopped at the last provider reached, which it accepted; it is empty whenever no value
  was accepted. The executor does not call \<open>is_market_supported\<close>, and the symbol and
  its market have no part in any of this: a provider whose supported markets do not
  contain the market of the symbol is attempted like any other.
\<close>

theorem executor_skips_exactly_unregistered:
  assumes "fallback_plan (rt_config rt) method args kwargs = Inr plan"
    and "route_to_vendor rt method args kwargs = (out, st)"
  shows "\<exists>reached unreached.
           plan_fallback plan = reached @ unreached
           \<and> attempted st = filter (\<lambda>v. map_of (plan_impls plan) v \<noteq> None) reached
           \<and> map invocation (events st) = concat (map (invocations_of (plan_impls plan)) reached)
           \<and> (unreached = []
              \<or> (stop_after_first_success (plan_primary plan) method \<and> reached \<noteq> []
                  \<and> map_of (plan_impls plan) (last reached) \<noteq> None
                  \<and> successful_vendor st = Some (last reached)))
           \<and> (results st = [] \<longrightarrow> unreached = [])"
proof -
  have st: "st = vendor_loop rt method (plan_impls plan) (plan_primary plan) (plan_fallback plan)
                   initial_state"
    using assms(2) unfolding route_to_vendor_registered [OF assms(1)] by auto
  have "\<exists>pre suf. plan_fallback plan = pre @ suf
          \<and> attempted st = filter (\<lambda>v. map_of (plan_impls plan) v \<noteq> None) pre
          \<and> map invocation (events st) = concat (map (invocations_of (plan_impls plan)) pre)
          \<and> (suf = []
             \<or> (stop_after_first_success (plan_primary plan) method \<and> pre \<noteq> []
                 \<and> map_of (plan_impls plan) (last pre) \<noteq> None
                 \<and> successful_vendor st = Some (last pre)))"
    using vendor_loop_trace
      [of "plan_fallback plan" rt "method" "plan_impls plan" "plan_primary plan" initial_state]
    unfolding st by (simp only: initial_state_trace list.map append_Nil)
  then obtain pre suf where
    p: "plan_fallback plan = pre @ suf"
       "attempted st = filter (\<lambda>v. map_of (plan_impls plan) v \<noteq> None) pre"
       "map invocation (events st) = concat (map (invocations_of (plan_impls plan)) pre)"
       "suf = []
        \<or> (stop_after_first_success (plan_primary plan) method \<and> pre \<noteq> []
            \<and> map_of (plan_impls plan) (last pre) \<noteq> None
            \<and> successful_vendor st = Some (last pre))"
    by blast
  have inv: "(results st = []) = (successful_vendor st = None)"
    unfolding st by (rule vendor_loop_success_inv) (simp add: initial_state_def)
  have "results st = [] \<longrightarrow> suf = []"
    using p(4) inv by auto
  with p show ?thesis by blast
qed

lemma category_get_news: "get_category_for_method ''get_news'' = Inr ''news_data''"
  by code_simp

lemma catalog_get_news:
  "map_of VENDOR_METHODS ''get_news'' =
     Some [(''akshare'', Single ''get_akshare_stock_news''),
           (''alpha_vantage'', Single ''get_alpha_vantage_news''),
           (''openai'', Single ''get_stock_news_openai''),
           (''google'', Single ''get_google_news''),
           (''local'', Multi [''get_finnhub_news'', ''get_reddit_company_news'', ''get_google_news''])]"
  by (simp add: VENDOR_METHODS_def)

theorem executor_skips_exactly_unregistered_witness:
  "attempted (snd (route_to_vendor failing_runtime ''get_news'' [''AAPL''] Map.empty))
     = [''akshare'', ''alpha_vantage'']
   \<and> map invocation (events (snd (route_to_vendor failing_runtime ''get_news'' [''AAPL''] Map.empty)))
     = [(''akshare'', ''get_akshare_stock_news''), (''alpha_vantage'', ''get_alpha_vantage_news'')]"
proof -
  let ?impls = "[(''akshare'', Single ''get_akshare_stock_news''),
                 (''alpha_vantage'', Single ''get_alpha_vantage_news''),
                 (''openai'', Single ''get_stock_news_openai''),
                 (''google'', Single ''get_google_news''),
                 (''local'', Multi [''get_finnhub_news'', ''get_reddit_company_news'', ''get_google_news''])]"
  let ?primary = "[''akshare'', ''yfinance'', ''alpha_vantage'']"
  let ?plan = "\<lparr> plan_primary = ?primary, plan_fallback = ?primary, plan_impls = ?impls \<rparr>"
  let ?st = "snd (route_to_vendor failing_runtime ''get_news'' [''AAPL''] Map.empty)"
  have c: "rt_config failing_runtime = DEFAULT_CONFIG"
    by (simp add: failing_runtime_def)
  have sc: "is_market_scoped DEFAULT_CONFIG (extract_symbol [''AAPL''] Map.empty)"
    by code_simp
  have pv: "split_vendors (get_vendor DEFAULT_CONFIG ''news_data'' (Some ''get_news'')
              (extract_symbol [''AAPL''] Map.empty)) = ?primary"
    by code_simp
  have p: "fallback_plan (rt_config failing_runtime) ''get_news'' [''AAPL''] Map.empty = Inr ?plan"
    unfolding c
    using fallback_plan_registered [OF category_get_news catalog_get_news,
        of DEFAULT_CONFIG "[''AAPL'']" Map.empty]
    by (simp add: pv build_fallback_vendors_scoped [OF sc])
  have r: "results ?st = []"
    by code_simp
  from executor_skips_exactly_unregistered [OF p surjective_pairing]
  obtain reached unreached where
    t: "plan_fallback ?plan = reached @ unreached"
       "attempted ?st = filter (\<lambda>v. map_of (plan_impls ?plan) v \<noteq> None) reached"
       "map invocation (events ?st) = concat (map (invocations_of (plan_impls ?plan)) reached)"
       "results ?st = [] \<longrightarrow> unreached = []"
    by blast
  from t(4) r have "unreached = []"
    by blast
  with t(1) have "reached = ?primary"
    by simp
  with t(2,3) show ?thesis
    by (simp add: invocations_of_def vendor_methods_of_def)
qed

text \<open>
  The claim as stated fails: \<^verbatim>\<open>baostock\<close> does not support the market of
  \<^verbatim>\<open>AAPL\<close>, and its adapter is invoked all the same; what it returns is accepted and is
  the result of the call.
\<close>

theorem unsupported_market_provider_is_attempted:
  "\<not> is_market_supported ''AAPL'' ''baostock''
   \<and> map_sum id plan_fallback
       (fallback_plan (rt_config baostock_first_runtime) ''get_stock_data'' [''AAPL''] Map.empty)
       = Inr [''baostock'', ''alpha_vantage'', ''yfinance'', ''akshare'', ''local'']
   \<and> attempted (snd (route_to_vendor baostock_first_runtime ''get_stock_data'' [''AAPL''] Map.empty))
       = [''baostock'']
   \<and> events (snd (route_to_vendor baostock_first_runtime ''get_stock_data'' [''AAPL''] Map.empty))
       = [(''baostock'', ''get_baostock_stock_data'', Succeeded)]
   \<and> fst (route_to_vendor baostock_first_runtime ''get_stock_data'' [''AAPL''] Map.empty)
       = Inr (PyStr (''Error retrieving stock data for AAPL: Market US_STOCK is not supported ''
                     @ ''by BaoStock for stock data retrieval (A-shares only)''))"
  by code_simp

section \<open>Order of the attempts and the result\<close>

text \<open>
  Claim C4. \<open>out\<close> and \<open>st\<close> are the result and the final state of a call for a method
  with a plan. The providers attempted are, in order, an initial part of the providers of
  the plan that the catalog registers for the method. If one primary provider was
  configured or the method is \<^verbatim>\<open>get_stock_data\<close> or \<^verbatim>\<open>get_indicators\<close>, the loop ends
  with the provider it accepts: the successful provider is the last one attempted. In
  particular, for a plan \<open>[A, B, C]\<close> of registered providers where the adapter of \<open>A\<close>
  raises an exception classified as a network failure and the adapter of \<open>B\<close> returns a
  value that the quality gate lets pass, \<open>B\<close> is the successful provider, the value is
  the result, and the two invocations of \<open>A\<close> and \<open>B\<close> are the only ones.
\<close>

theorem providers_attempted_in_plan_order:
  assumes "fallback_plan (rt_config rt) method args kwargs = Inr plan"
    and "route_to_vendor rt method args kwargs = (out, st)"
  shows "(\<exists>suf. filter (\<lambda>v. map_of (plan_impls plan) v \<noteq> None) (plan_fallback plan)
                  = attempted st @ suf)
         \<and> (stop_after_first_success (plan_primary plan) method \<longrightarrow>
              (\<forall>v. successful_vendor st = Some v \<longrightarrow> attempted st \<noteq> [] \<and> last (attempted st) = v))
         \<and> (plan_fallback plan = [A, B, C]
              \<and> map_of (plan_impls plan) A = Some (Single fa)
              \<and> map_of (plan_impls plan) B = Some (Single fb)
              \<and> map_of (plan_impls plan) C \<noteq> None
              \<and> rt_call rt 0 fa = Raises e \<and> classify_exception e = NetworkFailed
              \<and> rt_call rt 1 fb = Returns r
              \<and> \<not> should_fallback_due_to_invalid_data rt method [r]
              \<and> stop_after_first_success (plan_primary plan) method
            \<longrightarrow> successful_vendor st = Some B
                \<and> attempted st = [A, B]
                \<and> events st = [(A, fa, NetworkFailed), (B, fb, Succeeded)]
                \<and> out = Inr r)"
proof -
  let ?loop = "vendor_loop rt method (plan_impls plan) (plan_primary plan)"
  have st: "st = ?loop (plan_fallback plan) initial_state"
    and out: "out = final_result rt method st"
    using assms(2) unfolding route_to_vendor_registered [OF assms(1)] by auto
  have one: "\<exists>suf. filter (\<lambda>v. map_of (plan_impls plan) v \<noteq> None) (plan_fallback plan)
                      = attempted st @ suf"
    using vendor_loop_attempted
      [of rt "method" "plan_impls plan" "plan_primary plan" "plan_fallback plan" initial_state]
    unfolding st by (auto simp: initial_state_def)
  have two: "attempted st \<noteq> [] \<and> last (attempted st) = v"
    if "stop_after_first_success (plan_primary plan) method" "successful_vendor st = Some v" for v
    using vendor_loop_stops_at_first_success
      [OF that(1), of initial_state rt "plan_impls plan" "plan_fallback plan" v] that(2)
    unfolding st by (simp add: initial_state_def)
  have three: "successful_vendor st = Some B \<and> attempted st = [A, B]
               \<and> events st = [(A, fa, NetworkFailed), (B, fb, Succeeded)] \<and> out = Inr r"
    if s: "plan_fallback plan = [A, B, C]"
          "map_of (plan_impls plan) A = Some (Single fa)"
          "map_of (plan_impls plan) B = Some (Single fb)"
          "rt_call rt 0 fa = Raises e" "classify_exception e = NetworkFailed"
          "rt_call rt 1 fb = Returns r"
          "\<not> should_fallback_due_to_invalid_data rt method [r]"
          "stop_after_first_success (plan_primary plan) method"
  proof -
    have a: "attempt_vendor rt method (plan_primary plan) A (Single fa) initial_state =
               (initial_state\<lparr> vendor_attempt_count := 1,
                               any_primary_vendor_attempted := A \<in> set (plan_primary plan),
                               attempted := [A],
                               events := [(A, fa, NetworkFailed)] \<rparr>, False)"
      using s(4,5)
      by (simp add: attempt_vendor_def Let_def vendor_methods_of_def initial_state_def)
    let ?st1 = "initial_state\<lparr> vendor_attempt_count := 1,
                               any_primary_vendor_attempted := A \<in> set (plan_primary plan),
                               attempted := [A],
                               events := [(A, fa, NetworkFailed)] \<rparr> :: 'a exec_state"
    have b: "attempt_vendor rt method (plan_primary plan) B (Single fb) ?st1 =
               (?st1\<lparr> vendor_attempt_count := 2,
                      any_primary_vendor_attempted :=
                        (A \<in> set (plan_primary plan) \<or> B \<in> set (plan_primary plan)),
                      attempted := [A, B],
                      events := [(A, fa, NetworkFailed), (B, fb, Succeeded)],
                      results := [r],
                      successful_vendor := Some B \<rparr>, True)"
      using s(6,7,8)
      by (simp add: attempt_vendor_def Let_def vendor_methods_of_def initial_state_def)
    have l1: "?loop [A, B, C] initial_state = ?loop [B, C] ?st1"
      unfolding vendor_loop_registered_step [OF s(2)] a by simp
    have l2: "?loop [B, C] ?st1
                = fst (attempt_vendor rt method (plan_primary plan) B (Single fb) ?st1)"
      unfolding vendor_loop_registered_step [OF s(3)] b by simp
    show ?thesis
      unfolding out st s(1) l1 l2 b by (simp add: final_result_def initial_state_def)
  qed
  from one two three show ?thesis
    by blast
qed

lemma plan_default_get_stock_data_AAPL:
  "fallback_plan DEFAULT_CONFIG ''get_stock_data'' [''AAPL''] Map.empty =
     Inr \<lparr> plan_primary = [''akshare'', ''yfinance'', ''alpha_vantage''],
           plan_fallback = [''akshare'', ''yfinance'', ''alpha_vantage''],
           plan_impls =
             [(''alpha_vantage'', Single ''get_alpha_vantage_stock''),
              (''yfinance'', Single ''get_YFin_data_online''),
              (''akshare'', Single ''get_akshare_stock_data''),
              (''baostock'', Single ''get_baostock_stock_data''),
              (''local'', Single ''get_YFin_data'')] \<rparr>"
proof -
  have "is_market_scoped DEFAULT_CONFIG (extract_symbol [''AAPL''] Map.empty)"
    by code_simp
  moreover have "split_vendors (get_vendor DEFAULT_CONFIG ''core_stock_apis''
      (Some ''get_stock_data'') (extract_symbol [''AAPL''] Map.empty))
        = [''akshare'', ''yfinance'', ''alpha_vantage'']"
    by code_simp
  ultimately show ?thesis
    using fallback_plan_registered [OF category_get_stock_data catalog_get_stock_data,
        of DEFAULT_CONFIG "[''AAPL'']" Map.empty]
    by (simp add: build_fallback_vendors_scoped)
qed

theorem providers_attempted_in_plan_order_witness:
  "successful_vendor (snd (route_to_vendor timeout_then_data_runtime ''get_stock_data''
                             [''AAPL''] Map.empty)) = Some ''yfinance''
   \<and> attempted (snd (route_to_vendor timeout_then_data_runtime ''get_stock_data''
                       [''AAPL''] Map.empty)) = [''akshare'', ''yfinance'']
   \<and> fst (route_to_vendor timeout_then_data_runtime ''get_stock_data'' [''AAPL''] Map.empty)
       = Inr (PyStr ''Date,Open,High,Low,Close,Volume'')"
proof -
  have c: "rt_config timeout_then_data_runtime = DEFAULT_CONFIG"
    by (simp add: timeout_then_data_runtime_def)
  have p: "fallback_plan (rt_config timeout_then_data_runtime) ''get_stock_data'' [''AAPL''] Map.empty =
     Inr \<lparr> plan_primary = [''akshare'', ''yfinance'', ''alpha_vantage''],
           plan_fallback = [''akshare'', ''yfinance'', ''alpha_vantage''],
           plan_impls =
             [(''alpha_vantage'', Single ''get_alpha_vantage_stock''),
              (''yfinance'', Single ''get_YFin_data_online''),
              (''akshare'', Single ''get_akshare_stock_data''),
              (''baostock'', Single ''get_baostock_stock_data''),
              (''local'', Single ''get_YFin_data'')] \<rparr>"
    unfolding c by (rule plan_default_get_stock_data_AAPL)
  have n: "classify_exception (Exc TimeoutError ''timed out'') = NetworkFailed"
    by simp
  have g: "\<not> should_fallback_due_to_invalid_data timeout_then_data_runtime ''get_stock_data''
               [PyStr ''Date,Open,High,Low,Close,Volume'']"
    by (simp add: should_fallback_due_to_invalid_data_def)
  have s: "stop_after_first_success [''akshare'', ''yfinance'', ''alpha_vantage''] ''get_stock_data''"
    by (simp add: stop_after_first_success_def)
  from providers_attempted_in_plan_order [OF p surjective_pairing,
      of "''akshare''" "''yfinance''" "''alpha_vantage''" "''get_akshare_stock_data''"
         "''get_YFin_data_online''" "Exc TimeoutError ''timed out''"
         "PyStr ''Date,Open,High,Low,Close,Volume''"] n g s
  show ?thesis
    by (simp add: timeout_then_data_runtime_def)
qed

text \<open>
  Claim C9. When \<^verbatim>\<open>results\<close> holds one value, that value is returned as it is (a string
  stays a string, another object stays that object). When it holds more, the result is
  the string made of \<^verbatim>\<open>str\<close> of each value, in the order in which they were accepted,
  joined with a newline. In particular, for a plan of three registered providers that
  all return and a call that does not stop at the first success, the result is the
  three values as text, joined with newlines in the order of the attempts.
\<close>

theorem result_is_single_value_or_joined_text:
  assumes "fallback_plan (rt_config rt) method args kwargs = Inr plan"
    and "route_to_vendor rt method args kwargs = (out, st)"
  shows "(\<forall>v. results st = [v] \<longrightarrow> out = Inr v)
         \<and> (2 \<le> length (results st) \<longrightarrow>
              out = Inr (PyStr (py_join [CHR 0x0A] (map (str_of (rt_str rt)) (results st)))))
         \<and> (plan_fallback plan = [A, B, C]
              \<and> map_of (plan_impls plan) A = Some (Single fa)
              \<and> map_of (plan_impls plan) B = Some (Single fb)
              \<and> map_of (plan_impls plan) C = Some (Single fc)
              \<and> rt_call rt 0 fa = Returns ra
              \<and> rt_call rt 1 fb = Returns rb
              \<and> rt_call rt 2 fc = Returns rc
              \<and> \<not> stop_after_first_success (plan_primary plan) method
            \<longrightarrow> results st = [ra, rb, rc]
                \<and> attempted st = [A, B, C]
                \<and> out = Inr (PyStr (str_of (rt_str rt) ra @ [CHR 0x0A]
                                     @ str_of (rt_str rt) rb @ [CHR 0x0A]
                                     @ str_of (rt_str rt) rc)))"
proof -
  have st: "st = vendor_loop rt method (plan_impls plan) (plan_primary plan) (plan_fallback plan)
                   initial_state"
    and out: "out = final_result rt method st"
    using assms(2) unfolding route_to_vendor_registered [OF assms(1)] by auto
  have one: "\<forall>v. results st = [v] \<longrightarrow> out = Inr v"
    unfolding out by (simp add: final_result_def)
  have two: "2 \<le> length (results st) \<longrightarrow>
               out = Inr (PyStr (py_join [CHR 0x0A] (map (str_of (rt_str rt)) (results st))))"
    unfolding out by (auto simp: final_result_def)
  have three: "results st = [ra, rb, rc] \<and> attempted st = [A, B, C]"
    if s: "plan_fallback plan = [A, B, C]"
          "map_of (plan_impls plan) A = Some (Single fa)"
          "map_of (plan_impls plan) B = Some (Single fb)"
          "map_of (plan_impls plan) C = Some (Single fc)"
          "rt_call rt 0 fa = Returns ra" "rt_call rt 1 fb = Returns rb"
          "rt_call rt 2 fc = Returns rc"
          "\<not> stop_after_first_success (plan_primary plan) method"
  proof -
    from s(8) have m: "method \<noteq> ''get_indicators''"
      by (auto simp: stop_after_first_success_def)
    show ?thesis
      unfolding st s(1)
      using s(2-8) m
      by (simp add: attempt_vendor_def Let_def vendor_methods_of_def initial_state_def
            should_fallback_due_to_invalid_data_def numeral_2_eq_2)
  qed
  show ?thesis
  proof (intro conjI impI)
    show "\<forall>v. results st = [v] \<longrightarrow> out = Inr v" by (rule one)
  next
    assume "2 \<le> length (results st)"
    with two show "out = Inr (PyStr (py_join [CHR 0x0A] (map (str_of (rt_str rt)) (results st))))"
      by blast
  next
    assume h: "plan_fallback plan = [A, B, C]
              \<and> map_of (plan_impls plan) A = Some (Single fa)
              \<and> map_of (plan_impls plan) B = Some (Single fb)
              \<and> map_of (plan_impls plan) C = Some (Single fc)
              \<and> rt_call rt 0 fa = Returns ra
              \<and> rt_call rt 1 fb = Returns rb
              \<and> rt_call rt 2 fc = Returns rc
              \<and> \<not> stop_after_first_success (plan_primary plan) method"
    then have r: "results st = [ra, rb, rc]" and a: "attempted st = [A, B, C]"
      using three by blast+
    show "results st = [ra, rb, rc]" by (rule r)
    show "attempted st = [A, B, C]" by (rule a)
    show "out = Inr (PyStr (str_of (rt_str rt) ra @ [CHR 0x0A]
                           @ str_of (rt_str rt) rb @ [CHR 0x0A]
                           @ str_of (rt_str rt) rc))"
      using two r by simp
  qed
qed

lemma category_get_global_news: "get_category_for_method ''get_global_news'' = Inr ''news_data''"
  by code_simp

lemma catalog_get_global_news:
  "map_of VENDOR_METHODS ''get_global_news'' =
     Some [(''akshare'', Single ''get_akshare_global_news''),
           (''openai'', Single ''get_global_news_openai''),
           (''local'', Single ''get_reddit_global_news'')]"
  by (simp add: VENDOR_METHODS_def)

theorem result_is_joined_text_witness:
  "fst (route_to_vendor reporting_runtime ''get_global_news'' [''2024-05-10''] Map.empty)
     = Inr (PyStr (''news from get_global_news_openai'' @ [CHR 0x0A]
                   @ ''news from get_akshare_global_news'' @ [CHR 0x0A]
                   @ ''news from get_reddit_global_news''))
   \<and> attempted (snd (route_to_vendor reporting_runtime ''get_global_news'' [''2024-05-10''] Map.empty))
       = [''openai'', ''akshare'', ''local'']"
proof -
  let ?impls = "[(''akshare'', Single ''get_akshare_global_news''),
                 (''openai'', Single ''get_global_news_openai''),
                 (''local'', Single ''get_reddit_global_news'')]"
  let ?plan = "\<lparr> plan_primary = [''openai'', ''akshare''],
                  plan_fallback = [''openai'', ''akshare'', ''local''],
                  plan_impls = ?impls \<rparr>"
  have c: "rt_config reporting_runtime = DEFAULT_CONFIG"
    by (simp add: reporting_runtime_def)
  have u: "\<not> is_market_scoped DEFAULT_CONFIG (extract_symbol [''2024-05-10''] Map.empty)"
    by code_simp
  have pv: "split_vendors (get_vendor DEFAULT_CONFIG ''news_data'' (Some ''get_global_news'')
              (extract_symbol [''2024-05-10''] Map.empty)) = [''openai'', ''akshare'']"
    by code_simp
  have p: "fallback_plan (rt_config reporting_runtime) ''get_global_news'' [''2024-05-10''] Map.empty
             = Inr ?plan"
    unfolding c
    using fallback_plan_registered [OF category_get_global_news catalog_get_global_news,
        of DEFAULT_CONFIG "[''2024-05-10'']" Map.empty]
      build_fallback_vendors_unscoped [OF u, of ?impls "[''openai'', ''akshare'']"]
    by (simp add: pv)
  have s: "\<not> stop_after_first_success [''openai'', ''akshare''] ''get_global_news''"
    by (simp add: stop_after_first_success_def)
  from result_is_single_value_or_joined_text [OF p surjective_pairing,
      of "''openai''" "''akshare''" "''local''" "''get_global_news_openai''"
         "''get_akshare_global_news''" "''get_reddit_global_news''"
         "PyStr ''news from get_global_news_openai''"
         "PyStr ''news from get_akshare_global_news''"
         "PyStr ''news from get_reddit_global_news''"] s
  show ?thesis
    by (simp add: reporting_runtime_def str_of_def)
qed

section \<open>The quality gate in the executor\<close>

lemma rejected_indicator_result_step:
  assumes "map_of impls vendor = Some (Single f)"
    and "rt_call rt (length (events st)) f = Returns r"
    and "is_indicator_result_invalid (rt_float rt) (str_of (rt_str rt) r)"
  shows "vendor_loop rt ''get_indicators'' impls primary (vendor # rest) st =
           vendor_loop rt ''get_indicators'' impls primary rest
             (st\<lparr> vendor_attempt_count := vendor_attempt_count st + 1,
                   any_primary_vendor_attempted :=
                     (any_primary_vendor_attempted st \<or> vendor \<in> set primary),
                   attempted := attempted st @ [vendor],
                   events := events st @ [(vendor, f, Succeeded)] \<rparr>)"
  unfolding vendor_loop_registered_step [OF assms(1)]
  using assms(2,3)
  by (simp add: attempt_vendor_def Let_def vendor_methods_of_def
        should_fallback_due_to_invalid_data_def)

text \<open>
  Claim C5. The gate judges a text invalid if and only if it has no date line or the
  ratio of its valid lines to its date lines is below 0.30, whatever \<^verbatim>\<open>float\<close> accepts.
  The report with ten date lines of which two carry a number and eight are marked as a
  holiday is rejected; the report with four valid lines out of ten is accepted. In the
  executor, for \<^verbatim>\<open>get_indicators\<close>, a provider whose only result is judged invalid
  adds nothing to \<^verbatim>\<open>results\<close> and does not become the successful provider, and the
  loop goes on with the rest of the plan.
\<close>

theorem indicator_gate_threshold:
  "is_indicator_result_invalid fl text =
     (date_lines text = 0 \<or> real (valid_lines fl text) / real (date_lines text) < 3 / 10)
   \<and> (date_lines holiday_report = 10 \<and> valid_lines fl holiday_report = 2
        \<and> is_indicator_result_invalid fl holiday_report)
   \<and> (date_lines partial_report = 10 \<and> valid_lines fl partial_report = 4
        \<and> \<not> is_indicator_result_invalid fl partial_report)
   \<and> (map_of impls vendor = Some (Single f)
        \<and> rt_call rt (length (events st)) f = Returns r
        \<and> is_indicator_result_invalid (rt_float rt) (str_of (rt_str rt) r)
      \<longrightarrow> vendor_loop rt ''get_indicators'' impls primary (vendor # rest) st =
            vendor_loop rt ''get_indicators'' impls primary rest
              (st\<lparr> vendor_attempt_count := vendor_attempt_count st + 1,
                    any_primary_vendor_attempted :=
                      (any_primary_vendor_attempted st \<or> vendor \<in> set primary),
                    attempted := attempted st @ [vendor],
                    events := events st @ [(vendor, f, Succeeded)] \<rparr>))"
  using gate_by_counts [of fl "text"]
    holiday_report_date_lines holiday_report_valid_lines [of fl] holiday_report_rejected [of fl]
    partial_report_date_lines partial_report_valid_lines [of fl] partial_report_accepted [of fl]
    rejected_indicator_result_step [of impls vendor f rt st r primary rest]
  by blast

lemma category_get_indicators: "get_category_for_method ''get_indicators'' = Inr ''technical_indicators''"
  by code_simp

lemma catalog_get_indicators:
  "map_of VENDOR_METHODS ''get_indicators'' =
     Some [(''alpha_vantage'', Single ''get_alpha_vantage_indicator''),
           (''yfinance'', Single ''get_stock_stats_indicators_window''),
           (''akshare'', Single ''get_akshare_indicators''),
           (''local'', Single ''get_stock_stats_indicators_window'')]"
  by (simp add: VENDOR_METHODS_def)

theorem indicator_gate_witness:
  "fst (route_to_vendor indicator_runtime ''get_indicators'' [''AAPL''] Map.empty)
     = Inr (PyStr partial_report)
   \<and> successful_vendor (snd (route_to_vendor indicator_runtime ''get_indicators'' [''AAPL''] Map.empty))
       = Some ''yfinance''
   \<and> events (snd (route_to_vendor indicator_runtime ''get_indicators'' [''AAPL''] Map.empty))
       = [(''akshare'', ''get_akshare_indicators'', Succeeded),
          (''yfinance'', ''get_stock_stats_indicators_window'', Succeeded)]"
proof -
  let ?impls = "[(''alpha_vantage'', Single ''get_alpha_vantage_indicator''),
                 (''yfinance'', Single ''get_stock_stats_indicators_window''),
                 (''akshare'', Single ''get_akshare_indicators''),
                 (''local'', Single ''get_stock_stats_indicators_window'')]"
  let ?primary = "[''akshare'', ''yfinance'', ''alpha_vantage'']"
  let ?plan = "\<lparr> plan_primary = ?primary, plan_fallback = ?primary, plan_impls = ?impls \<rparr>"
  let ?init = "initial_state :: unit exec_state"
  let ?st1 = "?init\<lparr> vendor_attempt_count := vendor_attempt_count ?init + 1,
                any_primary_vendor_attempted :=
                  (any_primary_vendor_attempted ?init \<or> ''akshare'' \<in> set ?primary),
                attempted := attempted ?init @ [''akshare''],
                events := events ?init @ [(''akshare'', ''get_akshare_indicators'', Succeeded)] \<rparr>"
  have c: "rt_config indicator_runtime = DEFAULT_CONFIG"
    by (simp add: indicator_runtime_def)
  have sc: "is_market_scoped DEFAULT_CONFIG (extract_symbol [''AAPL''] Map.empty)"
    by code_simp
  have pv: "split_vendors (get_vendor DEFAULT_CONFIG ''technical_indicators'' (Some ''get_indicators'')
              (extract_symbol [''AAPL''] Map.empty)) = ?primary"
    by code_simp
  have p: "fallback_plan (rt_config indicator_runtime) ''get_indicators'' [''AAPL''] Map.empty
             = Inr ?plan"
    unfolding c
    using fallback_plan_registered [OF category_get_indicators catalog_get_indicators,
        of DEFAULT_CONFIG "[''AAPL'']" Map.empty]
    by (simp add: pv build_fallback_vendors_scoped [OF sc])
  have h1: "map_of ?impls ''akshare'' = Some (Single ''get_akshare_indicators'')"
    by simp
  have h2: "rt_call indicator_runtime (length (events (initial_state :: unit exec_state)))
              ''get_akshare_indicators'' = Returns (PyStr holiday_report)"
    by (simp add: indicator_runtime_def)
  have "is_indicator_result_invalid (rt_float indicator_runtime) holiday_report"
    using indicator_gate_threshold [of "rt_float indicator_runtime" holiday_report]
    by blast
  then have h3: "is_indicator_result_invalid (rt_float indicator_runtime)
                   (str_of (rt_str indicator_runtime) (PyStr holiday_report))"
    by (simp add: str_of_def)
  have step: "vendor_loop indicator_runtime ''get_indicators'' ?impls ?primary
                (''akshare'' # [''yfinance'', ''alpha_vantage'']) initial_state
              = vendor_loop indicator_runtime ''get_indicators'' ?impls ?primary
                  [''yfinance'', ''alpha_vantage''] ?st1"
    using indicator_gate_threshold
      [of _ _ ?impls "''akshare''" "''get_akshare_indicators''" indicator_runtime
          initial_state "PyStr holiday_report" ?primary "[''yfinance'', ''alpha_vantage'']"]
      h1 h2 h3
    by blast
  have ok: "\<not> is_indicator_result_invalid (rt_float indicator_runtime) partial_report"
    using indicator_gate_threshold [of "rt_float indicator_runtime" partial_report]
    by blast
  have call2: "rt_call indicator_runtime (Suc 0) ''get_stock_stats_indicators_window''
                 = Returns (PyStr partial_report)"
    by (simp add: indicator_runtime_def)
  have rest: "vendor_loop indicator_runtime ''get_indicators'' ?impls ?primary
                [''yfinance'', ''alpha_vantage''] ?st1
              = ?st1\<lparr> vendor_attempt_count := 2,
                       attempted := [''akshare'', ''yfinance''],
                       events := [(''akshare'', ''get_akshare_indicators'', Succeeded),
                                  (''yfinance'', ''get_stock_stats_indicators_window'', Succeeded)],
                       results := [PyStr partial_report],
                       successful_vendor := Some ''yfinance'' \<rparr>"
    using ok call2
    by (simp add: attempt_vendor_def Let_def vendor_methods_of_def initial_state_def
          should_fallback_due_to_invalid_data_def stop_after_first_success_def str_of_def)
  show ?thesis
    unfolding route_to_vendor_registered [OF p]
    using step rest
    by (simp add: final_result_def initial_state_def)
qed

end
